theory Spec2Isabelle
  imports Complex_Main "HOL-Library.Word"
begin

section \<open>Python values, exceptions and the observable world\<close>

text \<open>
  The program is \<^verbatim>\<open>image_generator.py\<close>: a class \<^verbatim>\<open>NovaCanvasImageGenerator\<close> with the
  methods \<^verbatim>\<open>__init__\<close>, \<^verbatim>\<open>generate_image\<close>, \<^verbatim>\<open>generate_workshop_images\<close> and
  \<^verbatim>\<open>generate_single_test_image\<close>, and a function \<^verbatim>\<open>main\<close>. Everything it does is an
  effect on its surroundings (console, standard input, the remote model, the file
  system, the clock), so the embedding threads an explicit world through every call
  and records each effect, in order, in a trace.

  A value read from the provider's response is a JSON value, as \<^verbatim>\<open>json.loads\<close> returns
  it. A dictionary is an association list in insertion order (\<^verbatim>\<open>json.loads\<close> keeps one
  binding per key). Python floats are only passed through by this program (the guidance
  scale), never computed with; they are modelled as rationals.

  The arguments of \<^verbatim>\<open>generate_image\<close> have the types its docstring gives: prompt and
  filename are strings, width and height integers, the guidance scale a float, the seed
  an integer or \<^verbatim>\<open>None\<close>. Every call into the surroundings may raise. In the first
  embedding of the program writing to the console is taken to succeed; the second one
  (the definitions \<open>*_c\<close>) has a console that may raise on any line, and is the one to
  use for what the program can raise. Paths are joined as on POSIX.
\<close>

datatype json =
    JNull
  | JBool bool
  | JInt int
  | JFloat rat
  | JStr string
  | JList "json list"
  | JDict "(string \<times> json) list"

type_synonym byte = "8 word"

text \<open>
  An instance of Python's \<^verbatim>\<open>Exception\<close>: its class name and \<^verbatim>\<open>str(e)\<close>. Signals that
  are not instances of \<^verbatim>\<open>Exception\<close> (\<^verbatim>\<open>KeyboardInterrupt\<close>, \<^verbatim>\<open>SystemExit\<close>) are not
  modelled. The wording of the interpreter's own messages differs between Python
  versions; the model carries a short form of each.
\<close>

datatype exn = Exception (exn_class: string) (exn_str: string)

text \<open>Console lines, one constructor per \<^verbatim>\<open>print\<close> (or \<^verbatim>\<open>input\<close> prompt) of the source.\<close>

datatype msg =
    MsgGenerating string          \<comment> \<open>\<^verbatim>\<open>Generating image: {filename}\<close>\<close>
  | MsgPrompt string              \<comment> \<open>\<^verbatim>\<open>Prompt: {prompt[:100]}...\<close>\<close>
  | MsgSaved string               \<comment> \<open>\<^verbatim>\<open>Image saved: {output_path}\<close>\<close>
  | MsgNoImage string             \<comment> \<open>\<^verbatim>\<open>No image generated for {filename}\<close>\<close>
  | MsgError string string        \<comment> \<open>\<^verbatim>\<open>Error generating {filename}: {str(e)}\<close>\<close>
  | MsgStarting nat               \<comment> \<open>\<^verbatim>\<open>Starting generation of {len(prompts)} workshop images...\<close>\<close>
  | MsgOutputDir string           \<comment> \<open>\<^verbatim>\<open>Output directory: {self.output_dir}\<close>\<close>
  | MsgRule nat                   \<comment> \<open>\<^verbatim>\<open>"=" * n\<close>\<close>
  | MsgNlRule nat                 \<comment> \<open>\<^verbatim>\<open>"\n" + "=" * n\<close>\<close>
  | MsgProgress nat nat string    \<comment> \<open>\<^verbatim>\<open>\n[{i}/{len(prompts)}] {description}\<close>\<close>
  | MsgWaiting int                \<comment> \<open>\<^verbatim>\<open>Waiting {delay_seconds} seconds...\<close>\<close>
  | MsgComplete                   \<comment> \<open>\<^verbatim>\<open>Generation complete!\<close>\<close>
  | MsgSuccessful nat             \<comment> \<open>\<^verbatim>\<open>Successful: {successful_generations}\<close>\<close>
  | MsgFailed nat                 \<comment> \<open>\<^verbatim>\<open>Failed: {failed_generations}\<close>\<close>
  | MsgSavedIn string             \<comment> \<open>\<^verbatim>\<open>Images saved in: {self.output_dir}/\<close>\<close>
  | MsgTestStart                  \<comment> \<open>\<^verbatim>\<open>Generating test image...\<close>\<close>
  | MsgTestOk                     \<comment> \<open>\<^verbatim>\<open>Test successful! Nova Canvas is working correctly.\<close>\<close>
  | MsgTestFailed                 \<comment> \<open>\<^verbatim>\<open>Test failed. Please check your AWS credentials and permissions.\<close>\<close>
  | MsgTitle                      \<comment> \<open>\<^verbatim>\<open>Amazon Nova Canvas Workshop Image Generator\<close>\<close>
  | MsgInitOk                     \<comment> \<open>\<^verbatim>\<open>Nova Canvas client initialized successfully\<close>\<close>
  | MsgInitFailed string          \<comment> \<open>\<^verbatim>\<open>Failed to initialize Nova Canvas client: {e}\<close>\<close>
  | MsgCheckCredentials           \<comment> \<open>\<^verbatim>\<open>Please check your AWS credentials and region settings.\<close>\<close>
  | MsgWhatToDo                   \<comment> \<open>\<^verbatim>\<open>\nWhat would you like to do?\<close>\<close>
  | MsgOption1                    \<comment> \<open>\<^verbatim>\<open>1. Generate test image\<close>\<close>
  | MsgOption2                    \<comment> \<open>\<^verbatim>\<open>2. Generate all workshop images\<close>\<close>
  | MsgOption3                    \<comment> \<open>\<^verbatim>\<open>3. Both (test first, then all images)\<close>\<close>
  | MsgEnterChoice                \<comment> \<open>\<^verbatim>\<open>\nEnter your choice (1-3): \<close>\<close>
  | MsgPressEnter                 \<comment> \<open>\<^verbatim>\<open>Press Enter to continue with full generation...\<close>\<close>
  | MsgInvalidChoice              \<comment> \<open>\<^verbatim>\<open>Invalid choice. Please run the script again.\<close>\<close>

text \<open>The effects the program performs, in the order it performs them.\<close>

datatype event =
    Print msg                     \<comment> \<open>a line on the console\<close>
  | Invoke string json            \<comment> \<open>\<^verbatim>\<open>invoke_model(modelId, body)\<close>: one remote call\<close>
  | Sleep int                     \<comment> \<open>\<^verbatim>\<open>time.sleep(secs)\<close> that suspended the run\<close>
  | Opened string                 \<comment> \<open>\<^verbatim>\<open>open(path, 'wb')\<close>: file created or truncated\<close>
  | Wrote string "byte list"      \<comment> \<open>bytes stored in the opened file\<close>
  | MadeDirs string               \<comment> \<open>\<^verbatim>\<open>os.makedirs(path, exist_ok=True)\<close>\<close>

record world =
  files :: "string \<rightharpoonup> byte list"
  stdin :: "string list"
  trace :: "event list"

text \<open>
  What the surroundings answer. Each oracle may depend on everything that happened
  before (the trace), so any mix of per-call outcomes is an environment.
  \<^item> \<open>boto3_client\<close>: \<^verbatim>\<open>boto3.client(service_name, region_name)\<close> raises or not;
  \<^item> \<open>os_makedirs\<close>: \<^verbatim>\<open>os.makedirs(path, exist_ok=True)\<close> raises or not;
  \<^item> \<open>invoke_model\<close>: the remote call together with reading and parsing its body
    (\<^verbatim>\<open>json.loads(response['body'].read())\<close>): an exception of any of the three, or the
    parsed JSON value;
  \<^item> \<open>b64decode\<close>: \<^verbatim>\<open>base64.b64decode\<close> on a string (it raises on bad padding or on
    a non-ASCII string);
  \<^item> \<open>fs_open\<close>: \<^verbatim>\<open>open(path, 'wb')\<close> raises or not;
  \<^item> \<open>fs_write\<close>: writing and closing the opened file fails after \<open>n\<close> bytes were
    stored, or completes.
\<close>

record env =
  boto3_client :: "string \<Rightarrow> exn option"
  os_makedirs :: "event list \<Rightarrow> string \<Rightarrow> exn option"
  invoke_model :: "event list \<Rightarrow> string \<Rightarrow> json \<Rightarrow> exn + json"
  b64decode :: "string \<Rightarrow> exn + byte list"
  fs_open :: "event list \<Rightarrow> string \<Rightarrow> exn option"
  fs_write :: "event list \<Rightarrow> string \<Rightarrow> byte list \<Rightarrow> (nat \<times> exn) option"

section \<open>Computations that may raise\<close>

type_synonym 'a io = "world \<Rightarrow> (exn + 'a) \<times> world"

definition ret :: "'a \<Rightarrow> 'a io" where
  "ret x = (\<lambda>w. (Inr x, w))"

definition lift :: "exn + 'a \<Rightarrow> 'a io" where
  "lift r = (\<lambda>w. (r, w))"

definition bind_io :: "'a io \<Rightarrow> ('a \<Rightarrow> 'b io) \<Rightarrow> 'b io" where
  "bind_io m k = (\<lambda>w. case m w of (Inl e, w') \<Rightarrow> (Inl e, w') | (Inr x, w') \<Rightarrow> k x w')"

text \<open>\<^verbatim>\<open>try: m  except Exception as e: h\<close>. Effects performed before the raise stay.\<close>

definition try_except :: "'a io \<Rightarrow> (exn \<Rightarrow> 'a io) \<Rightarrow> 'a io" where
  "try_except m h = (\<lambda>w. case m w of (Inl e, w') \<Rightarrow> h e w' | (Inr x, w') \<Rightarrow> (Inr x, w'))"

definition emit :: "event \<Rightarrow> world \<Rightarrow> world" where
  "emit e w = w\<lparr>trace := trace w @ [e]\<rparr>"

definition py_print :: "msg \<Rightarrow> unit io" where
  "py_print m = (\<lambda>w. (Inr (), emit (Print m) w))"

text \<open>\<^verbatim>\<open>input(prompt)\<close>: prints the prompt, reads a line; \<^verbatim>\<open>EOFError\<close> at end of input.\<close>

definition py_input :: "msg \<Rightarrow> string io" where
  "py_input m = (\<lambda>w. case stdin w of
       [] \<Rightarrow> (Inl (Exception ''EOFError'' ''EOF when reading a line''), emit (Print m) w)
     | l # ls \<Rightarrow> (Inr l, emit (Print m) (w\<lparr>stdin := ls\<rparr>)))"

text \<open>\<^verbatim>\<open>time.sleep(secs)\<close>: a negative length raises \<^verbatim>\<open>ValueError\<close> and does not sleep.\<close>

definition time_sleep :: "int \<Rightarrow> unit io" where
  "time_sleep secs = (\<lambda>w.
     if secs < 0 then (Inl (Exception ''ValueError'' ''sleep length must be non-negative''), w)
     else (Inr (), emit (Sleep secs) w))"

definition client_invoke_model :: "env \<Rightarrow> string \<Rightarrow> json \<Rightarrow> json io" where
  "client_invoke_model env mid body =
     (\<lambda>w. (invoke_model env (trace w) mid body, emit (Invoke mid body) w))"

text \<open>
  \<^verbatim>\<open>with open(path, 'wb') as f: f.write(data)\<close>. Opening creates or truncates the file;
  a failure while writing or closing leaves the bytes stored so far.
\<close>

definition write_binary :: "env \<Rightarrow> string \<Rightarrow> byte list \<Rightarrow> unit io" where
  "write_binary env path data = (\<lambda>w.
     case fs_open env (trace w) path of
       Some e \<Rightarrow> (Inl e, w)
     | None \<Rightarrow>
        (let w1 = emit (Opened path) (w\<lparr>files := (files w)(path \<mapsto> [])\<rparr>) in
         case fs_write env (trace w1) path data of
           Some (n, e) \<Rightarrow>
             (Inl e, emit (Wrote path (take n data)) (w1\<lparr>files := (files w1)(path \<mapsto> take n data)\<rparr>))
         | None \<Rightarrow>
             (Inr (), emit (Wrote path data) (w1\<lparr>files := (files w1)(path \<mapsto> data)\<rparr>))))"

section \<open>The Python operations used on the response\<close>

primrec is_substring :: "string \<Rightarrow> string \<Rightarrow> bool" where
  "is_substring needle [] = (needle = [])"
| "is_substring needle (c # cs) =
     (take (length needle) (c # cs) = needle \<or> is_substring needle cs)"

text \<open>\<^verbatim>\<open>k in obj\<close> for a string \<open>k\<close>.\<close>

fun py_contains :: "json \<Rightarrow> string \<Rightarrow> exn + bool" where
  "py_contains (JDict kvs) k = Inr (k \<in> set (map fst kvs))"
| "py_contains (JList xs) k = Inr (JStr k \<in> set xs)"
| "py_contains (JStr s) k = Inr (is_substring k s)"
| "py_contains _ k = Inl (Exception ''TypeError'' ''argument is not iterable'')"

text \<open>\<^verbatim>\<open>obj[k]\<close> for a string \<open>k\<close>; only a dictionary has string keys.\<close>

fun py_getitem_key :: "json \<Rightarrow> string \<Rightarrow> exn + json" where
  "py_getitem_key (JDict kvs) k =
     (case map_of kvs k of
        Some v \<Rightarrow> Inr v
      | None \<Rightarrow> Inl (Exception ''KeyError'' (CHR 0x27 # k @ [CHR 0x27])))"
| "py_getitem_key _ k = Inl (Exception ''TypeError'' ''indices must be integers'')"

fun py_len :: "json \<Rightarrow> exn + nat" where
  "py_len (JList xs) = Inr (length xs)"
| "py_len (JStr s) = Inr (length s)"
| "py_len (JDict kvs) = Inr (length kvs)"
| "py_len _ = Inl (Exception ''TypeError'' ''object has no len()'')"

text \<open>\<^verbatim>\<open>obj[0]\<close>; the keys of a parsed JSON object are strings, so \<open>0\<close> is never one.\<close>

fun py_getitem0 :: "json \<Rightarrow> exn + json" where
  "py_getitem0 (JList xs) =
     (case xs of
        [] \<Rightarrow> Inl (Exception ''IndexError'' ''list index out of range'')
      | x # _ \<Rightarrow> Inr x)"
| "py_getitem0 (JStr s) =
     (case s of
        [] \<Rightarrow> Inl (Exception ''IndexError'' ''string index out of range'')
      | c # _ \<Rightarrow> Inr (JStr [c]))"
| "py_getitem0 (JDict kvs) = Inl (Exception ''KeyError'' ''0'')"
| "py_getitem0 _ = Inl (Exception ''TypeError'' ''object is not subscriptable'')"

text \<open>\<^verbatim>\<open>base64.b64decode(v)\<close>: only a string (of a JSON value) can be decoded.\<close>

fun base64_b64decode :: "env \<Rightarrow> json \<Rightarrow> exn + byte list" where
  "base64_b64decode env (JStr s) = b64decode env s"
| "base64_b64decode env _ =
     Inl (Exception ''TypeError'' ''argument should be a bytes-like object or ASCII string'')"

text \<open>\<^verbatim>\<open>os.path.join(a, b)\<close> (POSIX): an absolute second component replaces the first.\<close>

definition os_path_join :: "string \<Rightarrow> string \<Rightarrow> string" where
  "os_path_join a b =
     (if take 1 b = ''/'' then b
      else if a = [] \<or> last a = CHR ''/'' then a @ b
      else a @ ''/'' @ b)"

text \<open>\<^verbatim>\<open>d[k] = v\<close> on a dictionary: replace in place, or append a new key.\<close>

fun dict_setitem :: "(string \<times> json) list \<Rightarrow> string \<Rightarrow> json \<Rightarrow> (string \<times> json) list" where
  "dict_setitem [] k v = [(k, v)]"
| "dict_setitem ((k', v') # kvs) k v =
     (if k' = k then (k, v) # kvs else (k', v') # dict_setitem kvs k v)"

text \<open>Truth value of \<^verbatim>\<open>result\<close> in \<^verbatim>\<open>if result:\<close>, for \<^verbatim>\<open>None\<close> or a string.\<close>

fun truthy :: "string option \<Rightarrow> bool" where
  "truthy None = False"
| "truthy (Some s) = (s \<noteq> [])"

section \<open>NovaCanvasImageGenerator\<close>

record generator =
  model_id :: string
  output_dir :: string

text \<open>\<^verbatim>\<open>__init__(self, region_name='us-east-1')\<close>.\<close>

definition init :: "env \<Rightarrow> string \<Rightarrow> generator io" where
  "init env region_name =
     bind_io (lift (case boto3_client env region_name of Some e \<Rightarrow> Inl e | None \<Rightarrow> Inr ())) (\<lambda>_.
     let self = \<lparr>model_id = ''amazon.nova-canvas-v1:0'', output_dir = ''images''\<rparr> in
     bind_io (\<lambda>w. case os_makedirs env (trace w) (output_dir self) of
                     Some e \<Rightarrow> (Inl e, w)
                   | None \<Rightarrow> (Inr (), emit (MadeDirs (output_dir self)) w)) (\<lambda>_.
     ret self))"

text \<open>Lines 35 to 51: the request body, the seed added when it is not \<^verbatim>\<open>None\<close>.\<close>

definition request_body :: "string \<Rightarrow> int \<Rightarrow> int \<Rightarrow> rat \<Rightarrow> int option \<Rightarrow> json" where
  "request_body prompt' width height cfg_scale seed =
     (let image_generation_config =
            [(''numberOfImages'', JInt 1),
             (''quality'', JStr ''premium''),
             (''width'', JInt width),
             (''height'', JInt height),
             (''cfgScale'', JFloat cfg_scale)];
          config = (case seed of
                      None \<Rightarrow> image_generation_config
                    | Some s \<Rightarrow> dict_setitem image_generation_config ''seed'' (JInt s))
      in JDict [(''taskType'', JStr ''TEXT_IMAGE''),
                (''textToImageParams'', JDict [(''text'', JStr prompt')]),
                (''imageGenerationConfig'', JDict config)])"

text \<open>Line 66: \<^verbatim>\<open>'images' in response_body and len(response_body['images']) > 0\<close>.\<close>

definition has_images :: "json \<Rightarrow> exn + bool" where
  "has_images response_body =
     (case py_contains response_body ''images'' of
        Inl e \<Rightarrow> Inl e
      | Inr False \<Rightarrow> Inr False
      | Inr True \<Rightarrow>
          (case py_getitem_key response_body ''images'' of
             Inl e \<Rightarrow> Inl e
           | Inr images \<Rightarrow>
               (case py_len images of
                  Inl e \<Rightarrow> Inl e
                | Inr n \<Rightarrow> Inr (n > 0))))"

text \<open>Line 68: \<^verbatim>\<open>base64.b64decode(response_body['images'][0])\<close>.\<close>

definition decode_first_image :: "env \<Rightarrow> json \<Rightarrow> exn + byte list" where
  "decode_first_image env response_body =
     (case py_getitem_key response_body ''images'' of
        Inl e \<Rightarrow> Inl e
      | Inr images \<Rightarrow>
          (case py_getitem0 images of
             Inl e \<Rightarrow> Inl e
           | Inr first_image \<Rightarrow> base64_b64decode env first_image))"

text \<open>
  \<^verbatim>\<open>generate_image(self, prompt, filename, width, height, cfg_scale, seed)\<close>, lines 21 to 83:
  the whole body is one \<^verbatim>\<open>try\<close> whose handler prints the error and returns \<^verbatim>\<open>None\<close>.
\<close>

definition generate_image ::
    "env \<Rightarrow> generator \<Rightarrow> string \<Rightarrow> string \<Rightarrow> int \<Rightarrow> int \<Rightarrow> rat \<Rightarrow> int option \<Rightarrow> string option io" where
  "generate_image env self prompt' filename' width height cfg_scale seed =
     try_except
       (bind_io (py_print (MsgGenerating filename')) (\<lambda>_.
        bind_io (py_print (MsgPrompt (take 100 prompt'))) (\<lambda>_.
        bind_io (client_invoke_model env (model_id self)
                   (request_body prompt' width height cfg_scale seed)) (\<lambda>response_body.
        bind_io (lift (has_images response_body)) (\<lambda>nonempty.
        if nonempty then
          bind_io (lift (decode_first_image env response_body)) (\<lambda>image_data.
          let output_path = os_path_join (output_dir self) (filename' @ ''.png'') in
          bind_io (write_binary env output_path image_data) (\<lambda>_.
          bind_io (py_print (MsgSaved output_path)) (\<lambda>_.
          ret (Some output_path))))
        else
          bind_io (py_print (MsgNoImage filename')) (\<lambda>_.
          ret None))))))
       (\<lambda>e. bind_io (py_print (MsgError filename' (exn_str e))) (\<lambda>_. ret None))"

record prompt_data =
  filename :: string
  prompt :: string
  description :: string

text \<open>Lines 89 to 140: the job list of the workshop.\<close>

definition prompts :: "prompt_data list" where
  "prompts =
    [\<lparr>filename = ''01_basic_white_tshirt'',
      prompt = ''A clean white cotton t-shirt on a plain white background, front view, no wrinkles, studio lighting, product photography style, minimalist, high resolution'',
      description = ''Basic solid color t-shirt''\<rparr>,
     \<lparr>filename = ''02_striped_longsleeve'',
      prompt = ''A navy blue and white horizontal striped long-sleeve shirt, crew neck, regular fit, laid flat on white background, professional product photo, even lighting'',
      description = ''Striped long-sleeve shirt''\<rparr>,
     \<lparr>filename = ''03_checkered_buttonup'',
      prompt = ''A red and black checkered flannel button-up shirt, classic collar, long sleeves, regular fit, hanging on white background, studio photography'',
      description = ''Checkered button-up shirt''\<rparr>,
     \<lparr>filename = ''04_oversized_hoodie'',
      prompt = ''An oversized gray hoodie sweatshirt with hood up, loose fit, kangaroo pocket, long sleeves, on plain background, casual streetwear style'',
      description = ''Oversized hoodie''\<rparr>,
     \<lparr>filename = ''05_floral_blouse'',
      prompt = ''A light pink blouse with small white floral pattern, V-neck, short sleeves, fitted silhouette, on white background, feminine style, soft lighting'',
      description = ''Floral print blouse''\<rparr>,
     \<lparr>filename = ''06_vintage_band_tshirt'',
      prompt = ''A black vintage-style band t-shirt with distressed graphic print, crew neck, short sleeves, slightly faded, relaxed fit, on neutral background'',
      description = ''Vintage band t-shirt''\<rparr>,
     \<lparr>filename = ''07_formal_dress_shirt'',
      prompt = ''A crisp white formal dress shirt, French cuffs, spread collar, long sleeves, slim fit, pressed and neat, professional product photography'',
      description = ''Formal dress shirt''\<rparr>,
     \<lparr>filename = ''08_crop_top'',
      prompt = ''A bright yellow crop top, sleeveless, scoop neckline, fitted style, modern casual wear, on clean white background, good lighting'',
      description = ''Crop top''\<rparr>,
     \<lparr>filename = ''09_turtleneck_sweater'',
      prompt = ''A burgundy turtleneck sweater, long sleeves, fitted silhouette, ribbed texture, fall/winter style, on neutral background, cozy aesthetic'',
      description = ''Turtleneck sweater''\<rparr>,
     \<lparr>filename = ''10_tiedye_tshirt'',
      prompt = ''A tie-dye t-shirt with rainbow spiral pattern, crew neck, short sleeves, regular fit, vibrant colors, casual hippie style, bright lighting'',
      description = ''Tie-dye t-shirt''\<rparr>]"

text \<open>
  One pass of the loop of lines 149 to 166, for the \<open>i\<close>-th of \<open>n\<close> entries (\<open>i\<close> counts
  from 1): the progress line, the call, one counter incremented, and the pause unless
  this was the last entry. The call passes only prompt, filename and \<^verbatim>\<open>seed=42\<close>; width,
  height and guidance scale take their defaults 1024, 1024 and 8.0.
\<close>

definition workshop_iteration ::
    "env \<Rightarrow> generator \<Rightarrow> int \<Rightarrow> nat \<Rightarrow> nat \<Rightarrow> prompt_data \<Rightarrow> nat \<times> nat \<Rightarrow> (nat \<times> nat) io" where
  "workshop_iteration env self delay_seconds n i pd counts =
     bind_io (py_print (MsgProgress i n (description pd))) (\<lambda>_.
     bind_io (generate_image env self (prompt pd) (filename pd) 1024 1024 8 (Some 42)) (\<lambda>result.
     let counts' = (if truthy result then (fst counts + 1, snd counts)
                    else (fst counts, snd counts + 1)) in
     bind_io (if i < n
              then bind_io (py_print (MsgWaiting delay_seconds)) (\<lambda>_. time_sleep delay_seconds)
              else ret ()) (\<lambda>_.
     ret counts')))"

text \<open>\<^verbatim>\<open>for i, prompt_data in enumerate(prompts, 1)\<close>: an exception leaves the loop.\<close>

fun workshop_loop ::
    "env \<Rightarrow> generator \<Rightarrow> int \<Rightarrow> nat \<Rightarrow> nat \<Rightarrow> prompt_data list \<Rightarrow> nat \<times> nat \<Rightarrow> (nat \<times> nat) io" where
  "workshop_loop env self delay_seconds n i [] counts = ret counts"
| "workshop_loop env self delay_seconds n i (pd # rest) counts =
     bind_io (workshop_iteration env self delay_seconds n i pd counts)
       (\<lambda>counts'. workshop_loop env self delay_seconds n (Suc i) rest counts')"

text \<open>
  The body of \<^verbatim>\<open>generate_workshop_images\<close> over a job list: the source builds the list
  \<open>prompts\<close> as its first statement and never assigns to it again.
\<close>

definition generate_workshop_images_on ::
    "prompt_data list \<Rightarrow> env \<Rightarrow> generator \<Rightarrow> int \<Rightarrow> (nat \<times> nat) io" where
  "generate_workshop_images_on jobs env self delay_seconds =
     bind_io (py_print (MsgStarting (length jobs))) (\<lambda>_.
     bind_io (py_print (MsgOutputDir (output_dir self))) (\<lambda>_.
     bind_io (py_print (MsgRule 60)) (\<lambda>_.
     bind_io (workshop_loop env self delay_seconds (length jobs) 1 jobs (0, 0)) (\<lambda>counts.
     bind_io (py_print (MsgNlRule 60)) (\<lambda>_.
     bind_io (py_print MsgComplete) (\<lambda>_.
     bind_io (py_print (MsgSuccessful (fst counts))) (\<lambda>_.
     bind_io (py_print (MsgFailed (snd counts))) (\<lambda>_.
     bind_io (py_print (MsgSavedIn (output_dir self))) (\<lambda>_.
     ret counts)))))))))"

text \<open>\<^verbatim>\<open>generate_workshop_images(self, delay_seconds=2)\<close>, lines 85 to 174.\<close>

definition generate_workshop_images :: "env \<Rightarrow> generator \<Rightarrow> int \<Rightarrow> (nat \<times> nat) io" where
  "generate_workshop_images = generate_workshop_images_on prompts"

text \<open>\<^verbatim>\<open>generate_single_test_image(self)\<close>, lines 176 to 192.\<close>

definition generate_single_test_image :: "env \<Rightarrow> generator \<Rightarrow> bool io" where
  "generate_single_test_image env self =
     bind_io (py_print MsgTestStart) (\<lambda>_.
     bind_io (generate_image env self
                ''A simple red t-shirt on white background, product photography''
                ''test_shirt'' 1024 1024 8 (Some 123)) (\<lambda>result.
     if truthy result
     then bind_io (py_print MsgTestOk) (\<lambda>_. ret True)
     else bind_io (py_print MsgTestFailed) (\<lambda>_. ret False)))"

text \<open>\<^verbatim>\<open>str.strip()\<close>: the characters Python counts as white space, at both ends.\<close>

definition is_space :: "char \<Rightarrow> bool" where
  "is_space c = (of_char c \<in> set [9, 10, 11, 12, 13, 28, 29, 30, 31, 32, 133, 160 :: nat])"

definition strip :: "string \<Rightarrow> string" where
  "strip s = rev (dropWhile is_space (rev (dropWhile is_space s)))"

text \<open>
  \<^verbatim>\<open>main()\<close>, lines 194 to 230. The construction of the generator is inside a \<^verbatim>\<open>try\<close>
  whose handler prints and returns; nothing else in \<^verbatim>\<open>main\<close> is.
\<close>

definition main :: "env \<Rightarrow> unit io" where
  "main env =
     bind_io (py_print MsgTitle) (\<lambda>_.
     bind_io (py_print (MsgRule 50)) (\<lambda>_.
     bind_io (try_except
                (bind_io (init env ''us-east-1'') (\<lambda>g.
                 bind_io (py_print MsgInitOk) (\<lambda>_.
                 ret (Some g))))
                (\<lambda>e. bind_io (py_print (MsgInitFailed (exn_str e))) (\<lambda>_.
                     bind_io (py_print MsgCheckCredentials) (\<lambda>_.
                     ret None)))) (\<lambda>constructed.
     case constructed of
       None \<Rightarrow> ret ()
     | Some generator \<Rightarrow>
         bind_io (py_print MsgWhatToDo) (\<lambda>_.
         bind_io (py_print MsgOption1) (\<lambda>_.
         bind_io (py_print MsgOption2) (\<lambda>_.
         bind_io (py_print MsgOption3) (\<lambda>_.
         bind_io (py_input MsgEnterChoice) (\<lambda>line.
         let choice = strip line in
         if choice = ''1'' then
           bind_io (generate_single_test_image env generator) (\<lambda>_. ret ())
         else if choice = ''2'' then
           bind_io (generate_workshop_images env generator 2) (\<lambda>_. ret ())
         else if choice = ''3'' then
           bind_io (generate_single_test_image env generator) (\<lambda>ok.
           if ok then
             bind_io (py_print (MsgNlRule 50)) (\<lambda>_.
             bind_io (py_input MsgPressEnter) (\<lambda>_.
             bind_io (generate_workshop_images env generator 2) (\<lambda>_. ret ())))
           else ret ())
         else py_print MsgInvalidChoice))))))))"

section \<open>Observations on a trace\<close>

text \<open>Remote calls.\<close>

fun is_invoke :: "event \<Rightarrow> bool" where
  "is_invoke (Invoke m b) = True"
| "is_invoke _ = False"

text \<open>Pauses.\<close>

fun is_sleep :: "event \<Rightarrow> bool" where
  "is_sleep (Sleep d) = True"
| "is_sleep _ = False"

text \<open>Remote calls and pauses: the events whose interleaving is the pacing of a batch.\<close>

fun is_pacing :: "event \<Rightarrow> bool" where
  "is_pacing (Invoke m b) = True"
| "is_pacing (Sleep d) = True"
| "is_pacing _ = False"

text \<open>Effects on files.\<close>

fun is_storage :: "event \<Rightarrow> bool" where
  "is_storage (Opened path) = True"
| "is_storage (Wrote path bs) = True"
| "is_storage _ = False"

text \<open>What shows which job is being processed: its progress line, its name, its call.\<close>

fun is_job_event :: "event \<Rightarrow> bool" where
  "is_job_event (Print (MsgProgress i n d)) = True"
| "is_job_event (Print (MsgGenerating f)) = True"
| "is_job_event (Invoke m b) = True"
| "is_job_event _ = False"

text \<open>What \<^verbatim>\<open>generate_image\<close> can do after its remote call.\<close>

fun is_report :: "event \<Rightarrow> bool" where
  "is_report (Print (MsgSaved path)) = True"
| "is_report (Print (MsgNoImage f)) = True"
| "is_report (Print (MsgError f s)) = True"
| "is_report (Opened path) = True"
| "is_report (Wrote path bs) = True"
| "is_report _ = False"

text \<open>The events with which every call of \<^verbatim>\<open>generate_image\<close> begins (lines 53 to 61).\<close>

definition preamble ::
    "generator \<Rightarrow> string \<Rightarrow> string \<Rightarrow> int \<Rightarrow> int \<Rightarrow> rat \<Rightarrow> int option \<Rightarrow> event list" where
  "preamble self p f wd ht c seed =
     [Print (MsgGenerating f), Print (MsgPrompt (take 100 p)),
      Invoke (model_id self) (request_body p wd ht c seed)]"

text \<open>The remote call the batch makes for a job (line 152): seed 42, default sizes.\<close>

definition job_call :: "generator \<Rightarrow> prompt_data \<Rightarrow> event" where
  "job_call self pd = Invoke (model_id self) (request_body (prompt pd) 1024 1024 8 (Some 42))"

text \<open>
  The line with which a call of \<^verbatim>\<open>generate_image\<close> reports that it saved an image
  (line 75), and the lines with which it reports that it did not (lines 78 and 82).
\<close>

fun is_saved :: "event \<Rightarrow> bool" where
  "is_saved (Print (MsgSaved path)) = True"
| "is_saved _ = False"

fun is_failed :: "event \<Rightarrow> bool" where
  "is_failed (Print (MsgNoImage f)) = True"
| "is_failed (Print (MsgError f s)) = True"
| "is_failed _ = False"

section \<open>The vocabulary of the specification\<close>

text \<open>
  The specification speaks of a generation outcome: success with bytes, an answer
  without an image, or a failure with its reason. The source has no such type; the
  classification below is read off lines 57 to 68 (the answer of the remote call, the
  test of line 66, the decoding of line 68) and is only used to state properties.
\<close>

datatype outcome = Success "byte list" | Empty | Failure string

definition classify :: "env \<Rightarrow> exn + json \<Rightarrow> outcome" where
  "classify env answer =
     (case answer of
        Inl e \<Rightarrow> Failure (exn_str e)
      | Inr response_body \<Rightarrow>
          (case has_images response_body of
             Inl e \<Rightarrow> Failure (exn_str e)
           | Inr False \<Rightarrow> Empty
           | Inr True \<Rightarrow>
               (case decode_first_image env response_body of
                  Inl e \<Rightarrow> Failure (exn_str e)
                | Inr bytes \<Rightarrow> Success bytes)))"

text \<open>The outcome of the remote call that \<^verbatim>\<open>generate_image\<close> makes from world \<open>w\<close>.\<close>

definition generation_outcome ::
    "env \<Rightarrow> generator \<Rightarrow> string \<Rightarrow> string \<Rightarrow> int \<Rightarrow> int \<Rightarrow> rat \<Rightarrow> int option \<Rightarrow> world \<Rightarrow> outcome" where
  "generation_outcome env self p f wd ht c seed w =
     classify env
       (invoke_model env (trace w @ [Print (MsgGenerating f), Print (MsgPrompt (take 100 p))])
          (model_id self) (request_body p wd ht c seed))"

text \<open>Calls with a pause of \<open>d\<close> between consecutive ones and none after the last.\<close>

fun paced :: "int \<Rightarrow> event list \<Rightarrow> event list" where
  "paced d [] = []"
| "paced d [c] = [c]"
| "paced d (c # c' # cs) = c # Sleep d # paced d (c' # cs)"

text \<open>The job events of a list processed in order, the first entry numbered \<open>i\<close> of \<open>n\<close>.\<close>

fun expected_job_events :: "generator \<Rightarrow> nat \<Rightarrow> nat \<Rightarrow> prompt_data list \<Rightarrow> event list" where
  "expected_job_events self n i [] = []"
| "expected_job_events self n i (pd # rest) =
     Print (MsgProgress i n (description pd)) # Print (MsgGenerating (filename pd)) #
     job_call self pd # expected_job_events self n (Suc i) rest"

section \<open>The program with a console that may refuse a line\<close>

text \<open>
  The definitions above take every write to the console to succeed. The real \<^verbatim>\<open>print\<close>
  can raise (a console that cannot encode the emoji of a line raises
  \<^verbatim>\<open>UnicodeEncodeError\<close>), and not every \<^verbatim>\<open>print\<close> of the source is inside a \<^verbatim>\<open>try\<close>: the
  handler of \<^verbatim>\<open>generate_image\<close> prints at line 82. Below, the same statements of the source
  are embedded once more with a console that answers each line, given what happened
  before, by accepting it or by raising. With a console that accepts every line the two
  embeddings are equal (lemmas \<open>*_accepting\<close>).
\<close>

type_synonym console = "event list \<Rightarrow> msg \<Rightarrow> exn option"

definition accepting :: console where
  "accepting = (\<lambda>h m. None)"

text \<open>\<^verbatim>\<open>print(line)\<close>: a refused line raises and nothing is shown.\<close>

definition console_print :: "console \<Rightarrow> msg \<Rightarrow> unit io" where
  "console_print con m = (\<lambda>w.
     case con (trace w) m of
       Some e \<Rightarrow> (Inl e, w)
     | None \<Rightarrow> (Inr (), emit (Print m) w))"


text \<open>\<^verbatim>\<open>generate_image\<close>, lines 21 to 83.\<close>

definition generate_image_c ::
    "console \<Rightarrow> env \<Rightarrow> generator \<Rightarrow> string \<Rightarrow> string \<Rightarrow> int \<Rightarrow> int \<Rightarrow> rat \<Rightarrow> int option
       \<Rightarrow> string option io" where
  "generate_image_c con env self prompt' filename' width height cfg_scale seed =
     try_except
       (bind_io (console_print con (MsgGenerating filename')) (\<lambda>_.
        bind_io (console_print con (MsgPrompt (take 100 prompt'))) (\<lambda>_.
        bind_io (client_invoke_model env (model_id self)
                   (request_body prompt' width height cfg_scale seed)) (\<lambda>response_body.
        bind_io (lift (has_images response_body)) (\<lambda>nonempty.
        if nonempty then
          bind_io (lift (decode_first_image env response_body)) (\<lambda>image_data.
          let output_path = os_path_join (output_dir self) (filename' @ ''.png'') in
          bind_io (write_binary env output_path image_data) (\<lambda>_.
          bind_io (console_print con (MsgSaved output_path)) (\<lambda>_.
          ret (Some output_path))))
        else
          bind_io (console_print con (MsgNoImage filename')) (\<lambda>_.
          ret None))))))
       (\<lambda>e. bind_io (console_print con (MsgError filename' (exn_str e))) (\<lambda>_. ret None))"

text \<open>
  The two steps the specification sees in \<^verbatim>\<open>generate_image\<close>. The client step,
  \<open>generate\<close>, is lines 35 to 68 up to the decoded bytes: the request body, the two
  console lines, the remote call, the test of line 66 and the decoding of line 68, with
  every exception turned into a failure with its reason. The persistence step,
  \<open>persist\<close>, is the rest: lines 71 to 76 on success, line 78 on an empty answer, and
  the error line of the handler, which is printed outside the \<^verbatim>\<open>try\<close>.
\<close>

definition generate ::
    "console \<Rightarrow> env \<Rightarrow> generator \<Rightarrow> string \<Rightarrow> string \<Rightarrow> int \<Rightarrow> int \<Rightarrow> rat \<Rightarrow> int option
       \<Rightarrow> outcome io" where
  "generate con env self prompt' filename' width height cfg_scale seed =
     try_except
       (bind_io (console_print con (MsgGenerating filename')) (\<lambda>_.
        bind_io (console_print con (MsgPrompt (take 100 prompt'))) (\<lambda>_.
        bind_io (client_invoke_model env (model_id self)
                   (request_body prompt' width height cfg_scale seed)) (\<lambda>response_body.
        bind_io (lift (has_images response_body)) (\<lambda>nonempty.
        if nonempty then
          bind_io (lift (decode_first_image env response_body)) (\<lambda>image_data.
          ret (Success image_data))
        else ret Empty)))))
       (\<lambda>e. ret (Failure (exn_str e)))"

definition persist :: "console \<Rightarrow> env \<Rightarrow> generator \<Rightarrow> string \<Rightarrow> outcome \<Rightarrow> string option io" where
  "persist con env self filename' out =
     (case out of
        Success image_data \<Rightarrow>
          try_except
            (let output_path = os_path_join (output_dir self) (filename' @ ''.png'') in
             bind_io (write_binary env output_path image_data) (\<lambda>_.
             bind_io (console_print con (MsgSaved output_path)) (\<lambda>_.
             ret (Some output_path))))
            (\<lambda>e. bind_io (console_print con (MsgError filename' (exn_str e))) (\<lambda>_. ret None))
      | Empty \<Rightarrow>
          try_except
            (bind_io (console_print con (MsgNoImage filename')) (\<lambda>_. ret None))
            (\<lambda>e. bind_io (console_print con (MsgError filename' (exn_str e))) (\<lambda>_. ret None))
      | Failure s \<Rightarrow>
          bind_io (console_print con (MsgError filename' s)) (\<lambda>_. ret None))"












section \<open>Stub providers and fixtures for concrete runs\<close>

text \<open>The object that \<^verbatim>\<open>__init__\<close> constructs, and a world in which nothing has happened.\<close>

definition workshop_generator :: generator where
  "workshop_generator = \<lparr>model_id = ''amazon.nova-canvas-v1:0'', output_dir = ''images''\<rparr>"

definition fresh_world :: "string list \<Rightarrow> world" where
  "fresh_world lines = \<lparr>files = Map.empty, stdin = lines, trace = []\<rparr>"

text \<open>
  Surroundings in which the client can be built and storage accepts everything; the
  provider answers by \<open>respond\<close>, and the decoder knows the one string \<^verbatim>\<open>AA==\<close> (a single
  zero byte).
\<close>

definition stub_env :: "(json \<Rightarrow> exn + json) \<Rightarrow> env" where
  "stub_env respond =
     \<lparr>boto3_client = (\<lambda>region. None),
      os_makedirs = (\<lambda>h p. None),
      invoke_model = (\<lambda>h m body. respond body),
      b64decode = (\<lambda>s. if s = ''AA=='' then Inr [0]
                        else Inl (Exception ''binascii.Error'' ''Incorrect padding'')),
      fs_open = (\<lambda>h p. None),
      fs_write = (\<lambda>h p bs. None)\<rparr>"

definition always_raises :: "json \<Rightarrow> exn + json" where
  "always_raises body = Inl (Exception ''ClientError'' ''AccessDeniedException'')"

definition always_empty :: "json \<Rightarrow> exn + json" where
  "always_empty body = Inr (JDict [(''images'', JList [])])"

definition always_one_image :: "json \<Rightarrow> exn + json" where
  "always_one_image body = Inr (JDict [(''images'', JList [JStr ''AA==''])])"

text \<open>An image for the prompt \<^verbatim>\<open>x\<close>, an empty image list for every other prompt.\<close>

definition image_for_x :: "json \<Rightarrow> exn + json" where
  "image_for_x body =
     (if py_getitem_key body ''textToImageParams'' = Inr (JDict [(''text'', JStr ''x'')])
      then always_one_image body else always_empty body)"




definition two_jobs :: "prompt_data list" where
  "two_jobs = [\<lparr>filename = ''a'', prompt = ''x'', description = ''first''\<rparr>,
               \<lparr>filename = ''b'', prompt = ''y'', description = ''second''\<rparr>]"


section \<open>One call of generate_image\<close>

lemmas io_defs = ret_def lift_def bind_io_def try_except_def py_print_def emit_def
  client_invoke_model_def

lemmas eval_defs = io_defs py_input_def time_sleep_def write_binary_def generate_image_def
  workshop_iteration_def generate_workshop_images_on_def has_images_def decode_first_image_def
  request_body_def os_path_join_def stub_env_def workshop_generator_def fresh_world_def
  classify_def generation_outcome_def job_call_def Let_def

lemma generate_image_failure:
  "generation_outcome env self p f wd ht c seed w = Failure s \<Longrightarrow>
   generate_image env self p f wd ht c seed w =
     (Inr None, w\<lparr>trace := trace w @ preamble self p f wd ht c seed @ [Print (MsgError f s)]\<rparr>)"
  unfolding generate_image_def io_defs generation_outcome_def classify_def preamble_def
  by (auto split: sum.splits bool.splits)

lemma generate_image_empty:
  "generation_outcome env self p f wd ht c seed w = Empty \<Longrightarrow>
   generate_image env self p f wd ht c seed w =
     (Inr None, w\<lparr>trace := trace w @ preamble self p f wd ht c seed @ [Print (MsgNoImage f)]\<rparr>)"
  unfolding generate_image_def io_defs generation_outcome_def classify_def preamble_def
  by (auto split: sum.splits bool.splits)

lemma generate_image_success:
  "generation_outcome env self p f wd ht c seed w = Success bytes \<Longrightarrow>
   generate_image env self p f wd ht c seed w =
     (let path = os_path_join (output_dir self) (f @ ''.png'');
          w1 = w\<lparr>trace := trace w @ preamble self p f wd ht c seed\<rparr>
      in case write_binary env path bytes w1 of
           (Inl e, w2) \<Rightarrow> (Inr None, w2\<lparr>trace := trace w2 @ [Print (MsgError f (exn_str e))]\<rparr>)
         | (Inr u, w2) \<Rightarrow> (Inr (Some path), w2\<lparr>trace := trace w2 @ [Print (MsgSaved path)]\<rparr>))"
  unfolding generate_image_def io_defs generation_outcome_def classify_def preamble_def
  by (auto split: sum.splits bool.splits prod.splits simp: Let_def)

lemma generate_image_shape:
  "\<exists>r w' tail.
     generate_image env self p f wd ht c seed w = (Inr r, w')
     \<and> trace w' = trace w @ preamble self p f wd ht c seed @ tail
     \<and> stdin w' = stdin w
     \<and> (\<forall>e\<in>set tail. is_report e)"
proof (cases "generation_outcome env self p f wd ht c seed w")
  case (Failure s)
  show ?thesis
    unfolding generate_image_failure[OF Failure] by simp
next
  case Empty
  show ?thesis
    unfolding generate_image_empty[OF Empty] by simp
next
  case (Success bytes)
  show ?thesis
    unfolding generate_image_success[OF Success] write_binary_def emit_def Let_def
    by (auto split: option.splits prod.splits)
qed

lemma report_not_pacing: "is_report e \<Longrightarrow> \<not> is_pacing e"
  by (cases e rule: is_report.cases) simp_all

lemma report_not_job_event: "is_report e \<Longrightarrow> \<not> is_job_event e"
  by (cases e rule: is_report.cases) simp_all

lemma reports_filtered:
  assumes "\<forall>e\<in>set tail. is_report e"
  shows "filter is_pacing tail = []" and "filter is_job_event tail = []"
  using assms by (auto simp: filter_empty_conv report_not_pacing report_not_job_event)

section \<open>The loop of generate_workshop_images\<close>

lemma workshop_iteration_run:
  assumes "0 \<le> d \<or> \<not> i < n"
  shows "\<exists>c' w' evs.
     workshop_iteration env self d n i pd counts w = (Inr c', w')
     \<and> trace w' = trace w @ evs \<and> stdin w' = stdin w
     \<and> fst c' + snd c' = Suc (fst counts + snd counts)
     \<and> filter is_pacing evs = job_call self pd # (if i < n then [Sleep d] else [])
     \<and> filter is_job_event evs =
          [Print (MsgProgress i n (description pd)), Print (MsgGenerating (filename pd)),
           job_call self pd]"
proof -
  let ?w1 = "emit (Print (MsgProgress i n (description pd))) w"
  obtain r w2 tail where
    run: "generate_image env self (prompt pd) (filename pd) 1024 1024 8 (Some 42) ?w1 = (Inr r, w2)"
    and tr: "trace w2 = trace ?w1 @ preamble self (prompt pd) (filename pd) 1024 1024 8 (Some 42) @ tail"
    and inp: "stdin w2 = stdin ?w1"
    and rep: "\<forall>e\<in>set tail. is_report e"
    using generate_image_shape by blast
  note flt = reports_filtered[OF rep]
  show ?thesis
    using assms run tr inp flt
    unfolding workshop_iteration_def bind_io_def py_print_def ret_def time_sleep_def
    by (auto simp: emit_def preamble_def job_call_def Let_def)
qed

lemma workshop_loop_run:
  assumes "0 \<le> d \<or> length jobs \<le> 1" and "i + length jobs = Suc n"
  shows "\<exists>c' w' evs.
     workshop_loop env self d n i jobs counts w = (Inr c', w')
     \<and> trace w' = trace w @ evs \<and> stdin w' = stdin w
     \<and> fst c' + snd c' = fst counts + snd counts + length jobs
     \<and> filter is_pacing evs = paced d (map (job_call self) jobs)
     \<and> filter is_job_event evs = expected_job_events self n i jobs"
  using assms
proof (induction jobs arbitrary: i counts w)
  case Nil
  then show ?case by (simp add: ret_def)
next
  case (Cons pd rest)
  from Cons.prems have first: "0 \<le> d \<or> \<not> i < n" by auto
  obtain c1 w1 evs1 where
    it: "workshop_iteration env self d n i pd counts w = (Inr c1, w1)"
    and tr1: "trace w1 = trace w @ evs1" and in1: "stdin w1 = stdin w"
    and cnt1: "fst c1 + snd c1 = Suc (fst counts + snd counts)"
    and pac1: "filter is_pacing evs1 = job_call self pd # (if i < n then [Sleep d] else [])"
    and job1: "filter is_job_event evs1 =
                 [Print (MsgProgress i n (description pd)), Print (MsgGenerating (filename pd)),
                  job_call self pd]"
    using workshop_iteration_run[OF first] by blast
  from Cons.prems have rest: "0 \<le> d \<or> length rest \<le> 1" "Suc i + length rest = Suc n"
    by auto
  obtain c2 w2 evs2 where
    lp: "workshop_loop env self d n (Suc i) rest c1 w1 = (Inr c2, w2)"
    and tr2: "trace w2 = trace w1 @ evs2" and in2: "stdin w2 = stdin w1"
    and cnt2: "fst c2 + snd c2 = fst c1 + snd c1 + length rest"
    and pac2: "filter is_pacing evs2 = paced d (map (job_call self) rest)"
    and job2: "filter is_job_event evs2 = expected_job_events self n (Suc i) rest"
    using Cons.IH[OF rest] by blast
  have pac: "filter is_pacing (evs1 @ evs2) = paced d (map (job_call self) (pd # rest))"
  proof (cases rest)
    case Nil
    with Cons.prems have "i = n" by simp
    with Nil pac1 pac2 show ?thesis by simp
  next
    case (Cons pd' rest')
    with Cons.prems have "i < n" by simp
    with Cons pac1 pac2 show ?thesis by simp
  qed
  have "workshop_loop env self d n i (pd # rest) counts w = (Inr c2, w2)"
    using it lp by (simp add: bind_io_def)
  moreover have "trace w2 = trace w @ (evs1 @ evs2)" using tr1 tr2 by simp
  moreover have "stdin w2 = stdin w" using in1 in2 by simp
  moreover have "fst c2 + snd c2 = fst counts + snd counts + length (pd # rest)"
    using cnt1 cnt2 by simp
  moreover have "filter is_job_event (evs1 @ evs2) = expected_job_events self n i (pd # rest)"
    using job1 job2 by simp
  ultimately show ?case using pac by blast
qed

lemma workshop_iteration_counts:
  assumes "workshop_iteration env self d n i pd counts w = (Inr c', w')"
  shows "fst c' + snd c' = Suc (fst counts + snd counts)"
proof -
  obtain r w2 where
    "generate_image env self (prompt pd) (filename pd) 1024 1024 8 (Some 42)
       (emit (Print (MsgProgress i n (description pd))) w) = (Inr r, w2)"
    using generate_image_shape by blast
  with assms show ?thesis
    unfolding workshop_iteration_def bind_io_def py_print_def ret_def time_sleep_def
    by (auto simp: Let_def split: if_splits)
qed

lemma workshop_loop_counts:
  assumes "workshop_loop env self d n i jobs counts w = (Inr c', w')"
  shows "fst c' + snd c' = fst counts + snd counts + length jobs"
  using assms
proof (induction jobs arbitrary: i counts w)
  case Nil
  then show ?case by (simp add: ret_def)
next
  case (Cons pd rest)
  from Cons.prems obtain c1 w1 where
    it: "workshop_iteration env self d n i pd counts w = (Inr c1, w1)"
    and lp: "workshop_loop env self d n (Suc i) rest c1 w1 = (Inr c', w')"
    by (auto simp: bind_io_def split: prod.splits sum.splits)
  from workshop_iteration_counts[OF it] Cons.IH[OF lp] show ?case by simp
qed

lemma generate_workshop_images_on_run:
  assumes "0 \<le> d \<or> length jobs \<le> 1"
  shows "\<exists>s f w' evs.
     generate_workshop_images_on jobs env self d w = (Inr (s, f), w')
     \<and> trace w' = trace w @ evs \<and> stdin w' = stdin w
     \<and> s + f = length jobs
     \<and> filter is_pacing evs = paced d (map (job_call self) jobs)
     \<and> filter is_job_event evs = expected_job_events self (length jobs) 1 jobs"
proof -
  let ?w1 = "emit (Print (MsgRule 60)) (emit (Print (MsgOutputDir (output_dir self)))
               (emit (Print (MsgStarting (length jobs))) w))"
  have idx: "1 + length jobs = Suc (length jobs)" by simp
  obtain c' w2 evs where
    lp: "workshop_loop env self d (length jobs) 1 jobs (0, 0) ?w1 = (Inr c', w2)"
    and tr: "trace w2 = trace ?w1 @ evs" and inp: "stdin w2 = stdin ?w1"
    and cnt: "fst c' + snd c' = fst (0::nat, 0::nat) + snd (0::nat, 0::nat) + length jobs"
    and pac: "filter is_pacing evs = paced d (map (job_call self) jobs)"
    and job: "filter is_job_event evs = expected_job_events self (length jobs) 1 jobs"
    using workshop_loop_run[OF assms idx] by blast
  show ?thesis
    using lp tr inp cnt pac job
    unfolding generate_workshop_images_on_def bind_io_def py_print_def ret_def
    by (cases c') (simp add: emit_def)
qed

lemma generate_workshop_images_on_counts:
  assumes "generate_workshop_images_on jobs env self d w = (Inr (s, f), w')"
  shows "s + f = length jobs"
proof -
  from assms obtain w1 w2 where
    "workshop_loop env self d (length jobs) 1 jobs (0, 0) w1 = (Inr (s, f), w2)"
    unfolding generate_workshop_images_on_def bind_io_def py_print_def ret_def
    by (auto split: prod.splits sum.splits)
  from workshop_loop_counts[OF this] show ?thesis by simp
qed

section \<open>The request payload and the counters of a batch\<close>

text \<open>
  Claim C6. For every request, the request body built by \<^verbatim>\<open>generate_image\<close> is exactly
  \<^verbatim>\<open>{taskType: "TEXT_IMAGE", textToImageParams: {text: prompt}, imageGenerationConfig:
  {numberOfImages: 1, quality: "premium", width, height, cfgScale}}\<close>, with a \<^verbatim>\<open>seed\<close> field
  at the end of \<^verbatim>\<open>imageGenerationConfig\<close> exactly when a seed was supplied; and this body
  is what the one remote call of \<^verbatim>\<open>generate_image\<close> sends.
\<close>

theorem request_payload_exact:
  "request_body p wd ht c seed =
     JDict [(''taskType'', JStr ''TEXT_IMAGE''),
            (''textToImageParams'', JDict [(''text'', JStr p)]),
            (''imageGenerationConfig'',
               JDict ([(''numberOfImages'', JInt 1),
                       (''quality'', JStr ''premium''),
                       (''width'', JInt wd),
                       (''height'', JInt ht),
                       (''cfgScale'', JFloat c)]
                      @ (case seed of None \<Rightarrow> [] | Some s \<Rightarrow> [(''seed'', JInt s)])))]
   \<and> (\<exists>r w' tail.
        generate_image env self p f wd ht c seed w = (Inr r, w')
        \<and> trace w' = trace w @ [Print (MsgGenerating f), Print (MsgPrompt (take 100 p)),
                                 Invoke (model_id self) (request_body p wd ht c seed)] @ tail
        \<and> filter is_invoke tail = [])"
proof
  show "request_body p wd ht c seed =
     JDict [(''taskType'', JStr ''TEXT_IMAGE''),
            (''textToImageParams'', JDict [(''text'', JStr p)]),
            (''imageGenerationConfig'',
               JDict ([(''numberOfImages'', JInt 1),
                       (''quality'', JStr ''premium''),
                       (''width'', JInt wd),
                       (''height'', JInt ht),
                       (''cfgScale'', JFloat c)]
                      @ (case seed of None \<Rightarrow> [] | Some s \<Rightarrow> [(''seed'', JInt s)])))]"
    by (simp add: request_body_def split: option.splits)
next
  obtain r w' tail where
    run: "generate_image env self p f wd ht c seed w = (Inr r, w')"
    and tr: "trace w' = trace w @ preamble self p f wd ht c seed @ tail"
    and rep: "\<forall>e\<in>set tail. is_report e"
    using generate_image_shape by blast
  have "filter is_invoke tail = []"
  proof -
    have "\<not> is_invoke e" if "is_report e" for e
      using that by (cases e rule: is_report.cases) simp_all
    with rep show ?thesis by (auto simp: filter_empty_conv)
  qed
  with run tr show "\<exists>r w' tail.
        generate_image env self p f wd ht c seed w = (Inr r, w')
        \<and> trace w' = trace w @ [Print (MsgGenerating f), Print (MsgPrompt (take 100 p)),
                                 Invoke (model_id self) (request_body p wd ht c seed)] @ tail
        \<and> filter is_invoke tail = []"
    by (auto simp: preamble_def)
qed

theorem request_payload_exact_witness:
  "request_body ''x'' 1024 1024 8 (Some 42) =
     JDict [(''taskType'', JStr ''TEXT_IMAGE''),
            (''textToImageParams'', JDict [(''text'', JStr ''x'')]),
            (''imageGenerationConfig'',
               JDict [(''numberOfImages'', JInt 1),
                      (''quality'', JStr ''premium''),
                      (''width'', JInt 1024),
                      (''height'', JInt 1024),
                      (''cfgScale'', JFloat 8),
                      (''seed'', JInt 42)])]
   \<and> request_body ''x'' 512 768 (11 / 10) None =
     JDict [(''taskType'', JStr ''TEXT_IMAGE''),
            (''textToImageParams'', JDict [(''text'', JStr ''x'')]),
            (''imageGenerationConfig'',
               JDict [(''numberOfImages'', JInt 1),
                      (''quality'', JStr ''premium''),
                      (''width'', JInt 512),
                      (''height'', JInt 768),
                      (''cfgScale'', JFloat (11 / 10))])]"
  using request_payload_exact[of "''x''" 1024 1024 8 "Some 42"]
        request_payload_exact[of "''x''" 512 768 "11 / 10" None]
  by simp

lemma os_path_join_nonempty: "os_path_join a (f @ ''.png'') \<noteq> []"
  by (simp add: os_path_join_def)

lemma generate_image_verdict:
  "\<exists>r w' evs.
     generate_image env self p f wd ht c seed w = (Inr r, w')
     \<and> trace w' = trace w @ evs
     \<and> (truthy r \<and> length (filter is_saved evs) = 1 \<and> filter is_failed evs = []
        \<or> \<not> truthy r \<and> filter is_saved evs = [] \<and> length (filter is_failed evs) = 1)"
proof (cases "generation_outcome env self p f wd ht c seed w")
  case (Failure s)
  show ?thesis
    unfolding generate_image_failure[OF Failure] by (simp add: preamble_def)
next
  case Empty
  show ?thesis
    unfolding generate_image_empty[OF Empty] by (simp add: preamble_def)
next
  case (Success bytes)
  show ?thesis
    unfolding generate_image_success[OF Success] write_binary_def emit_def Let_def
    by (auto split: option.splits prod.splits simp: preamble_def os_path_join_nonempty)
qed

lemma workshop_iteration_increment:
  assumes "workshop_iteration env self d n i pd counts w = (Inr c', w')"
  shows "\<exists>evs. trace w' = trace w @ evs
     \<and> (c' = (fst counts + 1, snd counts)
          \<and> length (filter is_saved evs) = 1 \<and> filter is_failed evs = []
        \<or> c' = (fst counts, snd counts + 1)
          \<and> filter is_saved evs = [] \<and> length (filter is_failed evs) = 1)"
proof -
  obtain r w2 evs where
    run: "generate_image env self (prompt pd) (filename pd) 1024 1024 8 (Some 42)
       (emit (Print (MsgProgress i n (description pd))) w) = (Inr r, w2)"
    and tr: "trace w2 = trace (emit (Print (MsgProgress i n (description pd))) w) @ evs"
    and v: "truthy r \<and> length (filter is_saved evs) = 1 \<and> filter is_failed evs = []
        \<or> \<not> truthy r \<and> filter is_saved evs = [] \<and> length (filter is_failed evs) = 1"
    using generate_image_verdict by blast
  from assms run tr v show ?thesis
    unfolding workshop_iteration_def bind_io_def py_print_def ret_def time_sleep_def
    by (auto simp: Let_def emit_def split: if_splits)
qed

lemma workshop_loop_tally:
  assumes "workshop_loop env self d n i jobs counts w = (Inr c', w')"
  shows "\<exists>evs. trace w' = trace w @ evs
     \<and> fst c' = fst counts + length (filter is_saved evs)
     \<and> snd c' = snd counts + length (filter is_failed evs)"
  using assms
proof (induction jobs arbitrary: i counts w)
  case Nil
  then show ?case by (auto simp: ret_def)
next
  case (Cons pd rest)
  from Cons.prems obtain c1 w1 where
    it: "workshop_iteration env self d n i pd counts w = (Inr c1, w1)"
    and lp: "workshop_loop env self d n (Suc i) rest c1 w1 = (Inr c', w')"
    by (auto simp: bind_io_def split: prod.splits sum.splits)
  from workshop_iteration_increment[OF it] obtain evs1 where
    a: "trace w1 = trace w @ evs1"
       "fst c1 = fst counts + length (filter is_saved evs1)"
       "snd c1 = snd counts + length (filter is_failed evs1)"
    by auto
  from Cons.IH[OF lp] obtain evs2 where
    b: "trace w' = trace w1 @ evs2"
       "fst c' = fst c1 + length (filter is_saved evs2)"
       "snd c' = snd c1 + length (filter is_failed evs2)"
    by blast
  have "trace w' = trace w @ (evs1 @ evs2)" using a b by simp
  moreover have "fst c' = fst counts + length (filter is_saved (evs1 @ evs2))"
    "snd c' = snd counts + length (filter is_failed (evs1 @ evs2))"
    using a b by simp_all
  ultimately show ?case by blast
qed

lemma generate_workshop_images_on_tally:
  assumes "generate_workshop_images_on jobs env self d w = (Inr (s, f), w')"
  shows "\<exists>evs. trace w' = trace w @ evs
     \<and> s = length (filter is_saved evs) \<and> f = length (filter is_failed evs)"
proof -
  let ?w1 = "emit (Print (MsgRule 60)) (emit (Print (MsgOutputDir (output_dir self)))
               (emit (Print (MsgStarting (length jobs))) w))"
  from assms obtain w2 where
    lp: "workshop_loop env self d (length jobs) 1 jobs (0, 0) ?w1 = (Inr (s, f), w2)"
    and fin: "w' = emit (Print (MsgSavedIn (output_dir self))) (emit (Print (MsgFailed f))
               (emit (Print (MsgSuccessful s)) (emit (Print MsgComplete)
               (emit (Print (MsgNlRule 60)) w2))))"
    unfolding generate_workshop_images_on_def bind_io_def py_print_def ret_def
    by (auto split: prod.splits sum.splits)
  from workshop_loop_tally[OF lp] obtain evs where
    "trace w2 = trace ?w1 @ evs" "s = length (filter is_saved evs)"
    "f = length (filter is_failed evs)"
    by auto
  with fin show ?thesis by (auto simp: emit_def)
qed

text \<open>
  Claim C1. Every pass of the loop that completes increments exactly one of the two
  counters by one: succeeded when the job printed its saved line, failed when it printed
  its no-image or error line, and a job prints exactly one of these. Hence whenever a
  batch run returns its pair of counters, succeeded is the number of jobs that saved an
  image, failed the number of jobs that did not, and their sum is the number of jobs,
  for any job list and any behaviour of provider, decoder and storage. The run does
  return whenever the delay is a valid sleep length; for \<^verbatim>\<open>generate_workshop_images\<close>
  the sum is ten.
\<close>

theorem batch_counts_add_up:
  "(\<forall>n i pd counts w0 c' w1.
       workshop_iteration env self d n i pd counts w0 = (Inr c', w1) \<longrightarrow>
         (\<exists>evs. trace w1 = trace w0 @ evs
            \<and> (c' = (fst counts + 1, snd counts)
                 \<and> length (filter is_saved evs) = 1 \<and> filter is_failed evs = []
               \<or> c' = (fst counts, snd counts + 1)
                 \<and> filter is_saved evs = [] \<and> length (filter is_failed evs) = 1)))
   \<and> (\<forall>s f w'. generate_workshop_images_on jobs env self d w = (Inr (s, f), w') \<longrightarrow>
         s + f = length jobs
         \<and> (\<exists>evs. trace w' = trace w @ evs
               \<and> s = length (filter is_saved evs) \<and> f = length (filter is_failed evs)))
   \<and> (0 \<le> d \<longrightarrow> (\<exists>s f w'. generate_workshop_images_on jobs env self d w = (Inr (s, f), w')
                          \<and> s + f = length jobs))
   \<and> (0 \<le> d \<longrightarrow> (\<exists>s f w'. generate_workshop_images env self d w = (Inr (s, f), w')
                          \<and> s + f = 10))"
proof (intro conjI allI impI)
  fix n i pd counts w0 c' w1
  assume "workshop_iteration env self d n i pd counts w0 = (Inr c', w1)"
  then show "\<exists>evs. trace w1 = trace w0 @ evs
            \<and> (c' = (fst counts + 1, snd counts)
                 \<and> length (filter is_saved evs) = 1 \<and> filter is_failed evs = []
               \<or> c' = (fst counts, snd counts + 1)
                 \<and> filter is_saved evs = [] \<and> length (filter is_failed evs) = 1)"
    by (rule workshop_iteration_increment)
next
  fix s f w'
  assume "generate_workshop_images_on jobs env self d w = (Inr (s, f), w')"
  then show "s + f = length jobs" by (rule generate_workshop_images_on_counts)
next
  fix s f w'
  assume "generate_workshop_images_on jobs env self d w = (Inr (s, f), w')"
  then show "\<exists>evs. trace w' = trace w @ evs
               \<and> s = length (filter is_saved evs) \<and> f = length (filter is_failed evs)"
    by (rule generate_workshop_images_on_tally)
next
  assume "0 \<le> d"
  then show "\<exists>s f w'. generate_workshop_images_on jobs env self d w = (Inr (s, f), w')
                \<and> s + f = length jobs"
    using generate_workshop_images_on_run[of d jobs env self w] by blast
next
  assume "0 \<le> d"
  then have "\<exists>s f w'. generate_workshop_images_on prompts env self d w = (Inr (s, f), w')
                \<and> s + f = length prompts"
    using generate_workshop_images_on_run[of d prompts env self w] by blast
  moreover have "length prompts = 10" by (simp add: prompts_def)
  ultimately show "\<exists>s f w'. generate_workshop_images env self d w = (Inr (s, f), w')
                \<and> s + f = 10"
    by (simp add: generate_workshop_images_def)
qed

theorem batch_counts_add_up_witness:
  "(0::int) \<le> 2
   \<and> workshop_iteration (stub_env image_for_x) workshop_generator 2 2 1
        \<lparr>filename = ''a'', prompt = ''x'', description = ''first''\<rparr> (0, 0) (fresh_world []) =
       (Inr (1, 0),
        \<lparr>files = [''images/a.png'' \<mapsto> [0]], stdin = [],
         trace = [Print (MsgProgress 1 2 ''first''),
                  Print (MsgGenerating ''a''), Print (MsgPrompt ''x''),
                  Invoke ''amazon.nova-canvas-v1:0'' (request_body ''x'' 1024 1024 8 (Some 42)),
                  Opened ''images/a.png'', Wrote ''images/a.png'' [0],
                  Print (MsgSaved ''images/a.png''),
                  Print (MsgWaiting 2), Sleep 2]\<rparr>)
   \<and> workshop_iteration (stub_env image_for_x) workshop_generator 2 2 2
        \<lparr>filename = ''b'', prompt = ''y'', description = ''second''\<rparr> (1, 0) (fresh_world []) =
       (Inr (1, 1),
        \<lparr>files = Map.empty, stdin = [],
         trace = [Print (MsgProgress 2 2 ''second''),
                  Print (MsgGenerating ''b''), Print (MsgPrompt ''y''),
                  Invoke ''amazon.nova-canvas-v1:0'' (request_body ''y'' 1024 1024 8 (Some 42)),
                  Print (MsgNoImage ''b'')]\<rparr>)
   \<and> fst (generate_workshop_images_on two_jobs (stub_env image_for_x) workshop_generator 2
            (fresh_world [])) = Inr (1, 1)
   \<and> length (filter is_saved (trace (snd (generate_workshop_images_on two_jobs
        (stub_env image_for_x) workshop_generator 2 (fresh_world []))))) = 1
   \<and> length (filter is_failed (trace (snd (generate_workshop_images_on two_jobs
        (stub_env image_for_x) workshop_generator 2 (fresh_world []))))) = 1
   \<and> (1::nat) + 1 = length two_jobs
   \<and> (\<exists>s f w'. generate_workshop_images (stub_env always_raises) workshop_generator 2
                   (fresh_world []) = (Inr (s, f), w') \<and> s + f = 10)"
proof -
  have small: "(0::int) \<le> 2
   \<and> workshop_iteration (stub_env image_for_x) workshop_generator 2 2 1
        \<lparr>filename = ''a'', prompt = ''x'', description = ''first''\<rparr> (0, 0) (fresh_world []) =
       (Inr (1, 0),
        \<lparr>files = [''images/a.png'' \<mapsto> [0]], stdin = [],
         trace = [Print (MsgProgress 1 2 ''first''),
                  Print (MsgGenerating ''a''), Print (MsgPrompt ''x''),
                  Invoke ''amazon.nova-canvas-v1:0'' (request_body ''x'' 1024 1024 8 (Some 42)),
                  Opened ''images/a.png'', Wrote ''images/a.png'' [0],
                  Print (MsgSaved ''images/a.png''),
                  Print (MsgWaiting 2), Sleep 2]\<rparr>)
   \<and> workshop_iteration (stub_env image_for_x) workshop_generator 2 2 2
        \<lparr>filename = ''b'', prompt = ''y'', description = ''second''\<rparr> (1, 0) (fresh_world []) =
       (Inr (1, 1),
        \<lparr>files = Map.empty, stdin = [],
         trace = [Print (MsgProgress 2 2 ''second''),
                  Print (MsgGenerating ''b''), Print (MsgPrompt ''y''),
                  Invoke ''amazon.nova-canvas-v1:0'' (request_body ''y'' 1024 1024 8 (Some 42)),
                  Print (MsgNoImage ''b'')]\<rparr>)
   \<and> fst (generate_workshop_images_on two_jobs (stub_env image_for_x) workshop_generator 2
            (fresh_world [])) = Inr (1, 1)
   \<and> length (filter is_saved (trace (snd (generate_workshop_images_on two_jobs
        (stub_env image_for_x) workshop_generator 2 (fresh_world []))))) = 1
   \<and> length (filter is_failed (trace (snd (generate_workshop_images_on two_jobs
        (stub_env image_for_x) workshop_generator 2 (fresh_world []))))) = 1
   \<and> (1::nat) + 1 = length two_jobs"
    using batch_counts_add_up[where env="stub_env image_for_x" and self=workshop_generator
            and d=2 and jobs=two_jobs and w="fresh_world []"]
    by (simp add: eval_defs two_jobs_def image_for_x_def always_one_image_def always_empty_def)
  have "(0::int) \<le> 2" by simp
  with batch_counts_add_up[where env="stub_env always_raises" and self=workshop_generator
            and d=2 and jobs=two_jobs and w="fresh_world []"]
  have "\<exists>s f w'. generate_workshop_images (stub_env always_raises) workshop_generator 2
                   (fresh_world []) = (Inr (s, f), w') \<and> s + f = 10"
    by blast
  with small show ?thesis by blast
qed

section \<open>Continuation, pacing and order of a batch\<close>

lemma invoke_is_pacing: "filter is_invoke (filter is_pacing evs) = filter is_invoke evs"
proof -
  have "is_pacing e" if "is_invoke e" for e
    using that by (cases e) simp_all
  then show ?thesis by (auto simp: filter_filter intro: filter_cong)
qed

lemma sleep_is_pacing: "filter is_sleep (filter is_pacing evs) = filter is_sleep evs"
proof -
  have "is_pacing e" if "is_sleep e" for e
    using that by (cases e) simp_all
  then show ?thesis by (auto simp: filter_filter intro: filter_cong)
qed

lemma paced_invokes: "filter is_invoke (paced d (map (job_call self) jobs)) = map (job_call self) jobs"
  by (induction jobs rule: induct_list012) (simp_all add: job_call_def)

lemma paced_sleeps:
  "filter is_sleep (paced d (map (job_call self) jobs)) = replicate (length jobs - 1) (Sleep d)"
  by (induction jobs rule: induct_list012) (simp_all add: job_call_def)

lemma paced_empty: "paced d cs = [] \<longleftrightarrow> cs = []"
  by (induction d cs rule: paced.induct) simp_all

lemma paced_last: "cs \<noteq> [] \<Longrightarrow> last (paced d cs) = last cs"
  by (induction d cs rule: paced.induct) (simp_all add: paced_empty)

lemma generate_image_unproductive:
  assumes "\<forall>h m b bytes. classify env (invoke_model env h m b) \<noteq> Success bytes"
  shows "\<exists>m. generate_image env self p f wd ht c seed w =
           (Inr None, w\<lparr>trace := trace w @ preamble self p f wd ht c seed @ [Print m]\<rparr>)"
proof (cases "generation_outcome env self p f wd ht c seed w")
  case (Success bytes)
  with assms show ?thesis by (simp add: generation_outcome_def)
next
  case Empty
  from generate_image_empty[OF this] show ?thesis by blast
next
  case (Failure s)
  from generate_image_failure[OF this] show ?thesis by blast
qed

lemma workshop_iteration_unproductive:
  assumes np: "\<forall>h m b bytes. classify env (invoke_model env h m b) \<noteq> Success bytes"
    and run: "workshop_iteration env self d n i pd counts w = (Inr c', w')"
  shows "c' = (fst counts, Suc (snd counts)) \<and> files w' = files w
         \<and> (\<exists>evs. trace w' = trace w @ evs \<and> filter is_storage evs = [])"
proof -
  obtain m where
    "generate_image env self (prompt pd) (filename pd) 1024 1024 8 (Some 42)
       (emit (Print (MsgProgress i n (description pd))) w) =
     (Inr None, (emit (Print (MsgProgress i n (description pd))) w)
        \<lparr>trace := trace (emit (Print (MsgProgress i n (description pd))) w)
                   @ preamble self (prompt pd) (filename pd) 1024 1024 8 (Some 42) @ [Print m]\<rparr>)"
    using generate_image_unproductive[OF np] by blast
  with run show ?thesis
    unfolding workshop_iteration_def bind_io_def py_print_def ret_def time_sleep_def
    by (auto simp: Let_def emit_def preamble_def split: if_splits)
qed

lemma workshop_loop_unproductive:
  assumes np: "\<forall>h m b bytes. classify env (invoke_model env h m b) \<noteq> Success bytes"
    and run: "workshop_loop env self d n i jobs counts w = (Inr c', w')"
  shows "c' = (fst counts, snd counts + length jobs) \<and> files w' = files w
         \<and> (\<exists>evs. trace w' = trace w @ evs \<and> filter is_storage evs = [])"
  using run
proof (induction jobs arbitrary: i counts w)
  case Nil
  then show ?case by (auto simp: ret_def)
next
  case (Cons pd rest)
  from Cons.prems obtain c1 w1 where
    it: "workshop_iteration env self d n i pd counts w = (Inr c1, w1)"
    and lp: "workshop_loop env self d n (Suc i) rest c1 w1 = (Inr c', w')"
    by (auto simp: bind_io_def split: prod.splits sum.splits)
  from workshop_iteration_unproductive[OF np it] obtain evs1 where
    a: "c1 = (fst counts, Suc (snd counts))" "files w1 = files w"
       "trace w1 = trace w @ evs1" "filter is_storage evs1 = []"
    by blast
  from Cons.IH[OF lp] obtain evs2 where
    b: "c' = (fst c1, snd c1 + length rest)" "files w' = files w1"
       "trace w' = trace w1 @ evs2" "filter is_storage evs2 = []"
    by blast
  have "trace w' = trace w @ (evs1 @ evs2)" "filter is_storage (evs1 @ evs2) = []"
    using a b by simp_all
  with a b show ?case by auto
qed

lemma generate_workshop_images_on_unproductive:
  assumes np: "\<forall>h m b bytes. classify env (invoke_model env h m b) \<noteq> Success bytes"
    and run: "generate_workshop_images_on jobs env self d w = (Inr (s, f), w')"
  shows "s = 0 \<and> f = length jobs \<and> files w' = files w
         \<and> (\<exists>evs. trace w' = trace w @ evs \<and> filter is_storage evs = [])"
proof -
  let ?w1 = "emit (Print (MsgRule 60)) (emit (Print (MsgOutputDir (output_dir self)))
               (emit (Print (MsgStarting (length jobs))) w))"
  from run obtain w2 where
    lp: "workshop_loop env self d (length jobs) 1 jobs (0, 0) ?w1 = (Inr (s, f), w2)"
    and fin: "w' = emit (Print (MsgSavedIn (output_dir self))) (emit (Print (MsgFailed f))
               (emit (Print (MsgSuccessful s)) (emit (Print MsgComplete)
               (emit (Print (MsgNlRule 60)) w2))))"
    unfolding generate_workshop_images_on_def bind_io_def py_print_def ret_def
    by (auto split: prod.splits sum.splits)
  from workshop_loop_unproductive[OF np lp] obtain evs where
    "(s, f) = (fst (0::nat, 0::nat), snd (0::nat, 0::nat) + length jobs)" "files w2 = files ?w1"
    "trace w2 = trace ?w1 @ evs" "filter is_storage evs = []"
    by blast
  with fin show ?thesis by (auto simp: emit_def)
qed



text \<open>
  Claim C5. With a valid delay, the remote calls and pauses of a batch of \<open>n\<close> jobs are
  the \<open>n\<close> calls in list order with one pause of exactly the configured delay between
  consecutive calls and none after the last: \<open>n - 1\<close> pauses in all, whatever the
  outcome of the job before each pause, and the call of the last job comes after every
  pause.
\<close>

theorem pacing_between_jobs:
  assumes "0 \<le> d"
  shows "\<exists>r w' evs.
     generate_workshop_images_on jobs env self d w = (Inr r, w')
     \<and> trace w' = trace w @ evs
     \<and> filter is_pacing evs = paced d (map (job_call self) jobs)
     \<and> filter is_sleep evs = replicate (length jobs - 1) (Sleep d)
     \<and> (jobs \<noteq> [] \<longrightarrow> last (filter is_pacing evs) = job_call self (last jobs))"
proof -
  from assms obtain s f w' evs where
    run: "generate_workshop_images_on jobs env self d w = (Inr (s, f), w')"
    and tr: "trace w' = trace w @ evs"
    and pac: "filter is_pacing evs = paced d (map (job_call self) jobs)"
    using generate_workshop_images_on_run[of d jobs env self w] by blast
  have "filter is_sleep evs = replicate (length jobs - 1) (Sleep d)"
    using sleep_is_pacing[of evs] pac paced_sleeps by simp
  moreover have "last (filter is_pacing evs) = job_call self (last jobs)" if "jobs \<noteq> []"
    using that pac paced_last[of "map (job_call self) jobs" d] by (simp add: last_map)
  ultimately show ?thesis using run tr pac by blast
qed

theorem pacing_between_jobs_witness:
  "(0::int) \<le> 2 \<and> two_jobs \<noteq> []
   \<and> filter is_pacing (trace (snd (generate_workshop_images_on two_jobs (stub_env image_for_x)
        workshop_generator 2 (fresh_world [])))) =
       [Invoke ''amazon.nova-canvas-v1:0'' (request_body ''x'' 1024 1024 8 (Some 42)),
        Sleep 2,
        Invoke ''amazon.nova-canvas-v1:0'' (request_body ''y'' 1024 1024 8 (Some 42))]"
  using pacing_between_jobs[of 2 two_jobs "stub_env image_for_x" workshop_generator "fresh_world []"]
  by (simp add: eval_defs two_jobs_def image_for_x_def always_one_image_def always_empty_def)

lemma expected_job_events_length:
  "length (expected_job_events self n i jobs) = 3 * length jobs"
  by (induction jobs arbitrary: i) simp_all

lemma expected_job_events_nth:
  "N < length jobs \<Longrightarrow>
   take 3 (drop (3 * N) (expected_job_events self n i jobs)) =
     [Print (MsgProgress (i + N) n (description (jobs ! N))),
      Print (MsgGenerating (filename (jobs ! N))),
      job_call self (jobs ! N)]"
proof (induction jobs arbitrary: N i)
  case Nil
  then show ?case by simp
next
  case (Cons pd rest)
  show ?case
  proof (cases N)
    case 0
    then show ?thesis by simp
  next
    case (Suc M)
    with Cons.prems have "M < length rest" by simp
    note ih = Cons.IH[OF this, of "Suc i"]
    have step: "3 * N = Suc (Suc (Suc (3 * M)))" using Suc by simp
    show ?thesis unfolding step using ih Suc by simp
  qed
qed

text \<open>
  Claim C9. With a valid delay, the job events of a batch come in triples, one per job,
  and the triple at position \<open>N\<close> (counting from 0) shows the progress line, the output
  name and the prompt of entry \<open>N\<close> of the job list. The list is a value:
  \<^verbatim>\<open>generate_workshop_images\<close> runs on the fixed list \<open>prompts\<close>.
\<close>

theorem job_order_preserved:
  assumes "0 \<le> d"
  shows "\<exists>r w' evs.
     generate_workshop_images_on jobs env self d w = (Inr r, w')
     \<and> trace w' = trace w @ evs
     \<and> length (filter is_job_event evs) = 3 * length jobs
     \<and> (\<forall>N<length jobs. take 3 (drop (3 * N) (filter is_job_event evs)) =
           [Print (MsgProgress (Suc N) (length jobs) (description (jobs ! N))),
            Print (MsgGenerating (filename (jobs ! N))),
            Invoke (model_id self) (request_body (prompt (jobs ! N)) 1024 1024 8 (Some 42))])
     \<and> generate_workshop_images env self d w = generate_workshop_images_on prompts env self d w"
proof -
  from assms obtain s f w' evs where
    run: "generate_workshop_images_on jobs env self d w = (Inr (s, f), w')"
    and tr: "trace w' = trace w @ evs"
    and job: "filter is_job_event evs = expected_job_events self (length jobs) 1 jobs"
    using generate_workshop_images_on_run[of d jobs env self w] by blast
  have "length (filter is_job_event evs) = 3 * length jobs"
    using job by (simp add: expected_job_events_length)
  moreover have "\<forall>N<length jobs. take 3 (drop (3 * N) (filter is_job_event evs)) =
           [Print (MsgProgress (Suc N) (length jobs) (description (jobs ! N))),
            Print (MsgGenerating (filename (jobs ! N))),
            Invoke (model_id self) (request_body (prompt (jobs ! N)) 1024 1024 8 (Some 42))]"
    using job expected_job_events_nth[of _ jobs self "length jobs" 1]
    by (simp add: job_call_def)
  moreover have "generate_workshop_images env self d w =
                 generate_workshop_images_on prompts env self d w"
    by (simp add: generate_workshop_images_def)
  ultimately show ?thesis using run tr by blast
qed

theorem job_order_preserved_witness:
  "(0::int) \<le> 2 \<and> (1::nat) < length two_jobs
   \<and> take 3 (drop (3 * 1) (filter is_job_event (trace (snd (generate_workshop_images_on two_jobs
        (stub_env image_for_x) workshop_generator 2 (fresh_world [])))))) =
       [Print (MsgProgress 2 2 ''second''), Print (MsgGenerating ''b''),
        Invoke ''amazon.nova-canvas-v1:0'' (request_body ''y'' 1024 1024 8 (Some 42))]"
  using job_order_preserved[of 2 two_jobs "stub_env image_for_x" workshop_generator "fresh_world []"]
  by (simp add: eval_defs two_jobs_def image_for_x_def always_one_image_def always_empty_def)

text \<open>
  Claim C7. Against a provider that answers every call with \<^verbatim>\<open>{images: []}\<close>, the
  outcome of every request is Empty, \<^verbatim>\<open>generate_image\<close> returns \<^verbatim>\<open>None\<close> having only
  printed and called the provider (no file is opened or written), and a batch counts
  every job as failed and leaves storage as it was.
\<close>

theorem empty_image_list_counts_as_failure:
  assumes "\<forall>h m b. invoke_model env h m b = Inr (JDict [(''images'', JList [])])"
  shows "generation_outcome env self p f wd ht c seed w = Empty
     \<and> generate_image env self p f wd ht c seed w =
         (Inr None, w\<lparr>trace := trace w @
            [Print (MsgGenerating f), Print (MsgPrompt (take 100 p)),
             Invoke (model_id self) (request_body p wd ht c seed),
             Print (MsgNoImage f)]\<rparr>)
     \<and> (0 \<le> d \<longrightarrow>
          (\<exists>w' evs. generate_workshop_images_on jobs env self d w = (Inr (0, length jobs), w')
             \<and> trace w' = trace w @ evs \<and> filter is_storage evs = []
             \<and> files w' = files w))"
proof -
  have cls: "classify env (invoke_model env h m b) = Empty" for h m b
    using assms by (simp add: classify_def has_images_def)
  have out: "generation_outcome env self p f wd ht c seed w = Empty"
    by (simp add: generation_outcome_def cls)
  have "\<exists>w' evs. generate_workshop_images_on jobs env self d w = (Inr (0, length jobs), w')
             \<and> trace w' = trace w @ evs \<and> filter is_storage evs = []
             \<and> files w' = files w" if "0 \<le> d"
  proof -
    from that obtain s f' w' where
      run: "generate_workshop_images_on jobs env self d w = (Inr (s, f'), w')"
      using generate_workshop_images_on_run[of d jobs env self w] by blast
    have "\<forall>h m b bytes. classify env (invoke_model env h m b) \<noteq> Success bytes"
      by (simp add: cls)
    from generate_workshop_images_on_unproductive[OF this run] run show ?thesis by auto
  qed
  with out generate_image_empty[OF out] show ?thesis by (simp add: preamble_def)
qed

theorem empty_image_list_counts_as_failure_witness:
  "(\<forall>h m b. invoke_model (stub_env always_empty) h m b = Inr (JDict [(''images'', JList [])]))
   \<and> (0::int) \<le> 2
   \<and> generation_outcome (stub_env always_empty) workshop_generator ''x'' ''a'' 1024 1024 8 (Some 42)
     (fresh_world []) = Empty
   \<and> generate_image (stub_env always_empty) workshop_generator ''x'' ''a'' 1024 1024 8 (Some 42)
       (fresh_world []) =
       (Inr None, \<lparr>files = Map.empty, stdin = [],
                   trace = [Print (MsgGenerating ''a''), Print (MsgPrompt ''x''),
                            Invoke ''amazon.nova-canvas-v1:0''
                              (request_body ''x'' 1024 1024 8 (Some 42)),
                            Print (MsgNoImage ''a'')]\<rparr>)
   \<and> fst (generate_workshop_images_on two_jobs (stub_env always_empty) workshop_generator 2
            (fresh_world [])) = Inr (0, 2)
   \<and> filter is_storage (trace (snd (generate_workshop_images_on two_jobs (stub_env always_empty)
            workshop_generator 2 (fresh_world [])))) = []"
  using empty_image_list_counts_as_failure[of "stub_env always_empty" workshop_generator
          "''x''" "''a''" 1024 1024 8 "Some 42" "fresh_world []" 2 two_jobs]
  by (simp add: eval_defs two_jobs_def always_empty_def)

section \<open>Persistence and the effects of one call\<close>








section \<open>The two embeddings and the two steps of generate_image\<close>

lemma console_print_accepting: "console_print accepting m = py_print m"
  by (simp add: console_print_def accepting_def py_print_def)


lemma generate_image_c_accepting:
  "generate_image_c accepting env self p f wd ht c seed = generate_image env self p f wd ht c seed"
  unfolding generate_image_c_def generate_image_def console_print_accepting ..






lemma generate_image_c_steps:
  "generate_image_c con env self p f wd ht c seed =
     bind_io (generate con env self p f wd ht c seed) (persist con env self f)"
  unfolding generate_image_c_def generate_def persist_def bind_io_def try_except_def
    console_print_def client_invoke_model_def lift_def ret_def
  by (rule ext) (auto split: sum.splits option.splits prod.splits bool.splits outcome.splits simp: Let_def)

section \<open>The client step\<close>

lemma generate_refused_first:
  assumes "con (trace w) (MsgGenerating f) = Some e"
  shows "generate con env self p f wd ht c seed w = (Inr (Failure (exn_str e)), w)"
  using assms
  by (simp add: generate_def try_except_def bind_io_def console_print_def ret_def)

lemma generate_refused_second:
  assumes "con (trace w) (MsgGenerating f) = None"
    and "con (trace w @ [Print (MsgGenerating f)]) (MsgPrompt (take 100 p)) = Some e"
  shows "generate con env self p f wd ht c seed w =
           (Inr (Failure (exn_str e)), w\<lparr>trace := trace w @ [Print (MsgGenerating f)]\<rparr>)"
  using assms
  by (simp add: generate_def try_except_def bind_io_def console_print_def ret_def emit_def)

lemma generate_called:
  assumes "con (trace w) (MsgGenerating f) = None"
    and "con (trace w @ [Print (MsgGenerating f)]) (MsgPrompt (take 100 p)) = None"
  shows "generate con env self p f wd ht c seed w =
           (Inr (generation_outcome env self p f wd ht c seed w),
            w\<lparr>trace := trace w @ [Print (MsgGenerating f), Print (MsgPrompt (take 100 p)),
                                   Invoke (model_id self) (request_body p wd ht c seed)]\<rparr>)"
  using assms
  unfolding generate_def try_except_def bind_io_def console_print_def ret_def emit_def
    client_invoke_model_def lift_def generation_outcome_def classify_def
  by (auto split: sum.splits bool.splits)

text \<open>
  Claim C4. The client step of \<^verbatim>\<open>generate_image\<close> (the request body, the remote call
  and the decoding of its answer, which the specification calls generate) never raises
  and leaves the files and the standard input as they were, whatever console, provider
  and decoder do: apart from its two console lines its only effect is the single remote
  call (no call at all when the console refuses one of the two lines). With a console
  that accepts its lines it returns the outcome of the call after exactly that one
  call. Persistence is the other step: \<^verbatim>\<open>generate_image\<close> is the client step followed
  by the persistence step.
\<close>

theorem generate_writes_nothing:
  "(\<exists>out evs.
      generate con env self p f wd ht c seed w = (Inr out, w\<lparr>trace := trace w @ evs\<rparr>)
      \<and> (evs = []
         \<or> evs = [Print (MsgGenerating f)]
         \<or> evs = [Print (MsgGenerating f), Print (MsgPrompt (take 100 p)),
                   Invoke (model_id self) (request_body p wd ht c seed)]))
   \<and> generate accepting env self p f wd ht c seed w =
        (Inr (generation_outcome env self p f wd ht c seed w),
         w\<lparr>trace := trace w @ [Print (MsgGenerating f), Print (MsgPrompt (take 100 p)),
                                Invoke (model_id self) (request_body p wd ht c seed)]\<rparr>)
   \<and> generate_image_c con env self p f wd ht c seed w =
        bind_io (generate con env self p f wd ht c seed) (persist con env self f) w
   \<and> generate_image env self p f wd ht c seed w =
        bind_io (generate accepting env self p f wd ht c seed) (persist accepting env self f) w"
proof (intro conjI)
  show "\<exists>out evs.
      generate con env self p f wd ht c seed w = (Inr out, w\<lparr>trace := trace w @ evs\<rparr>)
      \<and> (evs = []
         \<or> evs = [Print (MsgGenerating f)]
         \<or> evs = [Print (MsgGenerating f), Print (MsgPrompt (take 100 p)),
                   Invoke (model_id self) (request_body p wd ht c seed)])"
  proof (cases "con (trace w) (MsgGenerating f)")
    case (Some e)
    have "w = w\<lparr>trace := trace w @ []\<rparr>" by simp
    with generate_refused_first[where con=con and w=w and env=env and self=self and p=p and wd=wd and ht=ht and c=c and seed=seed, OF Some] show ?thesis
      by metis
  next
    case None
    show ?thesis
    proof (cases "con (trace w @ [Print (MsgGenerating f)]) (MsgPrompt (take 100 p))")
      case (Some e)
      from generate_refused_second[where con=con and w=w and env=env and self=self and wd=wd and ht=ht and c=c and seed=seed, OF None Some] show ?thesis
        by blast
    next
      case second: None
      from generate_called[where con=con and w=w and env=env and self=self and wd=wd and ht=ht and c=c and seed=seed, OF None second] show ?thesis
        by blast
    qed
  qed
next
  show "generate accepting env self p f wd ht c seed w =
        (Inr (generation_outcome env self p f wd ht c seed w),
         w\<lparr>trace := trace w @ [Print (MsgGenerating f), Print (MsgPrompt (take 100 p)),
                                Invoke (model_id self) (request_body p wd ht c seed)]\<rparr>)"
    by (rule generate_called) (simp_all add: accepting_def)
next
  show "generate_image_c con env self p f wd ht c seed w =
        bind_io (generate con env self p f wd ht c seed) (persist con env self f) w"
    by (simp add: generate_image_c_steps)
next
  show "generate_image env self p f wd ht c seed w =
        bind_io (generate accepting env self p f wd ht c seed) (persist accepting env self f) w"
    by (simp add: generate_image_c_steps[symmetric] generate_image_c_accepting)
qed

theorem generate_writes_nothing_witness:
  "generate accepting (stub_env always_one_image) workshop_generator ''x'' ''a'' 1024 1024 8 None
     (fresh_world [''3'']) =
     (Inr (Success [0]),
      \<lparr>files = Map.empty, stdin = [''3''],
       trace = [Print (MsgGenerating ''a''), Print (MsgPrompt ''x''),
                Invoke ''amazon.nova-canvas-v1:0'' (request_body ''x'' 1024 1024 8 None)]\<rparr>)
   \<and> generate_image (stub_env always_one_image) workshop_generator ''x'' ''a'' 1024 1024 8 None
       (fresh_world [''3'']) =
     persist accepting (stub_env always_one_image) workshop_generator ''a'' (Success [0])
       \<lparr>files = Map.empty, stdin = [''3''],
        trace = [Print (MsgGenerating ''a''), Print (MsgPrompt ''x''),
                 Invoke ''amazon.nova-canvas-v1:0'' (request_body ''x'' 1024 1024 8 None)]\<rparr>"
proof -
  note t = generate_writes_nothing[of accepting "stub_env always_one_image" workshop_generator
          "''x''" "''a''" 1024 1024 8 None "fresh_world [''3'']"]
  have out: "generation_outcome (stub_env always_one_image) workshop_generator ''x'' ''a''
               1024 1024 8 None (fresh_world [''3'']) = Success [0]"
    by (simp add: eval_defs always_one_image_def)
  from t out show ?thesis
    by (simp add: bind_io_def fresh_world_def workshop_generator_def)
qed

section \<open>Construction, the test image and main\<close>

lemma generate_single_test_image_run:
  "\<exists>ok w' evs.
     generate_single_test_image env self w = (Inr ok, w')
     \<and> trace w' = trace w @ evs \<and> stdin w' = stdin w
     \<and> filter is_invoke evs =
          [Invoke (model_id self)
             (request_body ''A simple red t-shirt on white background, product photography''
                1024 1024 8 (Some 123))]"
proof -
  let ?w1 = "emit (Print MsgTestStart) w"
  let ?p = "''A simple red t-shirt on white background, product photography''"
  obtain r w2 tail where
    run: "generate_image env self ?p ''test_shirt'' 1024 1024 8 (Some 123) ?w1 = (Inr r, w2)"
    and tr: "trace w2 = trace ?w1 @ preamble self ?p ''test_shirt'' 1024 1024 8 (Some 123) @ tail"
    and inp: "stdin w2 = stdin ?w1"
    and rep: "\<forall>e\<in>set tail. is_report e"
    using generate_image_shape by blast
  have "filter is_invoke tail = []"
  proof -
    have "\<not> is_invoke e" if "is_report e" for e
      using that by (cases e rule: is_report.cases) simp_all
    with rep show ?thesis by (auto simp: filter_empty_conv)
  qed
  with run tr inp show ?thesis
    unfolding generate_single_test_image_def bind_io_def py_print_def ret_def
    by (auto simp: emit_def preamble_def)
qed

lemma init_constructs:
  assumes "boto3_client env region = None" and "os_makedirs env (trace w) ''images'' = None"
  shows "init env region w = (Inr workshop_generator, emit (MadeDirs ''images'') w)"
  using assms by (simp add: init_def bind_io_def lift_def ret_def workshop_generator_def Let_def)


lemma init_returns:
  assumes "init env region w = (Inr g, w1)"
  shows "boto3_client env region = None \<and> os_makedirs env (trace w) ''images'' = None"
  using assms
  by (auto simp: init_def bind_io_def lift_def ret_def Let_def split: option.splits)


lemma generate_workshop_images_returns:
  "\<exists>counts w' evs.
     generate_workshop_images env self 2 w = (Inr counts, w')
     \<and> trace w' = trace w @ evs \<and> stdin w' = stdin w
     \<and> filter is_invoke evs = map (job_call self) prompts"
proof -
  obtain s f w' evs where
    run: "generate_workshop_images_on prompts env self 2 w = (Inr (s, f), w')"
    and tr: "trace w' = trace w @ evs" and inp: "stdin w' = stdin w"
    and pac: "filter is_pacing evs = paced 2 (map (job_call self) prompts)"
    using generate_workshop_images_on_run[of 2 prompts env self w] by auto
  have "filter is_invoke evs = map (job_call self) prompts"
    using invoke_is_pacing[of evs] pac paced_invokes by simp
  with run tr inp show ?thesis by (auto simp: generate_workshop_images_def)
qed

lemma main_constructed_returns:
  assumes "init env ''us-east-1'' (w\<lparr>trace := trace w @ [Print MsgTitle, Print (MsgRule 50)]\<rparr>)
             = (Inr g, w1)"
    and "2 \<le> length (stdin w)"
  shows "\<exists>w'. main env w = (Inr (), w')"
proof -
  from assms(2) obtain l1 l2 ls where inp: "stdin w = l1 # l2 # ls"
    by (cases "stdin w"; cases "tl (stdin w)") auto
  from init_returns[OF assms(1)] have
    "boto3_client env ''us-east-1'' = None"
    "os_makedirs env (trace w @ [Print MsgTitle, Print (MsgRule 50)]) ''images'' = None"
    by simp_all
  from init_constructs[OF this(1), of "w\<lparr>trace := trace w @ [Print MsgTitle, Print (MsgRule 50)]\<rparr>"] this(2)
  have ini: "init env ''us-east-1'' (w\<lparr>trace := trace w @ [Print MsgTitle, Print (MsgRule 50)]\<rparr>)
             = (Inr workshop_generator,
                emit (MadeDirs ''images'') (w\<lparr>trace := trace w @ [Print MsgTitle, Print (MsgRule 50)]\<rparr>))"
    by simp
  let ?wm = "w\<lparr>stdin := l2 # ls,
               trace := trace w @ [Print MsgTitle, Print (MsgRule 50), MadeDirs ''images'',
                 Print MsgInitOk, Print MsgWhatToDo, Print MsgOption1, Print MsgOption2,
                 Print MsgOption3, Print MsgEnterChoice]\<rparr>"
  obtain ok wt evt where
    tst: "generate_single_test_image env workshop_generator ?wm = (Inr ok, wt)"
    and it: "stdin wt = stdin ?wm"
    using generate_single_test_image_run[of env workshop_generator ?wm] by blast
  obtain c2 w2 where
    b2: "generate_workshop_images env workshop_generator 2 ?wm = (Inr c2, w2)"
    using generate_workshop_images_returns[of env workshop_generator ?wm] by blast
  let ?wc = "wt\<lparr>stdin := ls, trace := trace wt @ [Print (MsgNlRule 50), Print MsgPressEnter]\<rparr>"
  obtain c3 w3 where
    b3: "generate_workshop_images env workshop_generator 2 ?wc = (Inr c3, w3)"
    using generate_workshop_images_returns[of env workshop_generator ?wc] by blast
  show ?thesis
    using ini inp tst it b2 b3
    unfolding main_def bind_io_def try_except_def py_print_def py_input_def ret_def
    by (simp add: emit_def Let_def)
qed

section \<open>What can be raised\<close>


















section \<open>What ends the run\<close>




section \<open>The test image, then the batch\<close>

text \<open>
  Claim C10, as amended. In the mode that combines test and batch (choice 3), the test
  image is generated first. When the test fails, \<^verbatim>\<open>main\<close> ends right there: no
  confirmation is asked and no batch job is attempted. When the test succeeds, \<^verbatim>\<open>main\<close>
  asks for confirmation; the full batch then runs (its ten remote calls in list order)
  exactly when the confirmation can be read, and at end of input the \<^verbatim>\<open>EOFError\<close> of
  \<^verbatim>\<open>input\<close> ends the run before any batch job.
\<close>

theorem test_then_batch_needs_confirmation:
  fixes env :: env and w :: world and rest :: "string list" and menu :: world
  defines "menu \<equiv> w\<lparr>stdin := rest,
                     trace := trace w @ [Print MsgTitle, Print (MsgRule 50), MadeDirs ''images'',
                       Print MsgInitOk, Print MsgWhatToDo, Print MsgOption1, Print MsgOption2,
                       Print MsgOption3, Print MsgEnterChoice]\<rparr>"
  assumes client: "boto3_client env ''us-east-1'' = None"
    and dirs: "os_makedirs env (trace w @ [Print MsgTitle, Print (MsgRule 50)]) ''images'' = None"
    and inp: "stdin w = line # rest"
    and choice: "strip line = ''3''"
  shows "\<exists>ok tested.
     generate_single_test_image env workshop_generator menu = (Inr ok, tested)
     \<and> stdin tested = rest
     \<and> (\<not> ok \<longrightarrow> main env w = (Inr (), tested))
     \<and> (ok \<and> rest = [] \<longrightarrow>
          main env w =
            (Inl (Exception ''EOFError'' ''EOF when reading a line''),
             tested\<lparr>trace := trace tested @ [Print (MsgNlRule 50), Print MsgPressEnter]\<rparr>))
     \<and> (ok \<and> rest \<noteq> [] \<longrightarrow>
          (\<exists>counts final evs.
             generate_workshop_images env workshop_generator 2
               (tested\<lparr>stdin := tl rest,
                       trace := trace tested @ [Print (MsgNlRule 50), Print MsgPressEnter]\<rparr>)
               = (Inr counts, final)
             \<and> main env w = (Inr (), final)
             \<and> trace final = trace tested @ [Print (MsgNlRule 50), Print MsgPressEnter] @ evs
             \<and> filter is_invoke evs = map (job_call workshop_generator) prompts))"
proof -
  let ?w0 = "w\<lparr>trace := trace w @ [Print MsgTitle, Print (MsgRule 50)]\<rparr>"
  have ini: "init env ''us-east-1'' ?w0 = (Inr workshop_generator, emit (MadeDirs ''images'') ?w0)"
    using init_constructs[OF client, of ?w0] dirs by simp
  obtain ok tested where
    tst: "generate_single_test_image env workshop_generator menu = (Inr ok, tested)"
    and it: "stdin tested = stdin menu"
    using generate_single_test_image_run[of env workshop_generator menu] by blast
  have rest: "stdin tested = rest" using it by (simp add: menu_def)
  have main_eq: "main env w =
      (if ok then
         (case rest of
            [] \<Rightarrow> (Inl (Exception ''EOFError'' ''EOF when reading a line''),
                   tested\<lparr>trace := trace tested @ [Print (MsgNlRule 50), Print MsgPressEnter]\<rparr>)
          | l # ls \<Rightarrow>
              (case generate_workshop_images env workshop_generator 2
                      (tested\<lparr>stdin := ls,
                              trace := trace tested @ [Print (MsgNlRule 50), Print MsgPressEnter]\<rparr>) of
                 (Inl e, w') \<Rightarrow> (Inl e, w')
               | (Inr counts, w') \<Rightarrow> (Inr (), w')))
       else (Inr (), tested))"
    using ini inp choice tst rest
    unfolding main_def bind_io_def try_except_def py_print_def py_input_def ret_def menu_def
    by (simp add: emit_def Let_def split: list.splits)
  have failed: "main env w = (Inr (), tested)" if "\<not> ok"
    using that main_eq by simp
  have eof: "main env w =
            (Inl (Exception ''EOFError'' ''EOF when reading a line''),
             tested\<lparr>trace := trace tested @ [Print (MsgNlRule 50), Print MsgPressEnter]\<rparr>)"
    if "ok \<and> rest = []"
    using that main_eq by simp
  have batch: "\<exists>counts final evs.
             generate_workshop_images env workshop_generator 2
               (tested\<lparr>stdin := tl rest,
                       trace := trace tested @ [Print (MsgNlRule 50), Print MsgPressEnter]\<rparr>)
               = (Inr counts, final)
             \<and> main env w = (Inr (), final)
             \<and> trace final = trace tested @ [Print (MsgNlRule 50), Print MsgPressEnter] @ evs
             \<and> filter is_invoke evs = map (job_call workshop_generator) prompts"
    if "ok \<and> rest \<noteq> []"
  proof -
    from that obtain l ls where ls: "rest = l # ls" by (cases rest) auto
    let ?wc = "tested\<lparr>stdin := ls,
                       trace := trace tested @ [Print (MsgNlRule 50), Print MsgPressEnter]\<rparr>"
    obtain counts final evs where
      run: "generate_workshop_images env workshop_generator 2 ?wc = (Inr counts, final)"
      and tr: "trace final = trace ?wc @ evs"
      and calls: "filter is_invoke evs = map (job_call workshop_generator) prompts"
      using generate_workshop_images_returns[of env workshop_generator ?wc] by blast
    from that ls run have "main env w = (Inr (), final)" using main_eq by simp
    with run tr calls ls show ?thesis by simp
  qed
  from tst rest failed eof batch show ?thesis by blast
qed

theorem test_then_batch_needs_confirmation_counterexample:
  "generate_single_test_image (stub_env always_one_image) workshop_generator
     \<lparr>files = Map.empty, stdin = [],
      trace = [Print MsgTitle, Print (MsgRule 50), MadeDirs ''images'', Print MsgInitOk,
               Print MsgWhatToDo, Print MsgOption1, Print MsgOption2, Print MsgOption3,
               Print MsgEnterChoice]\<rparr> =
     (Inr True,
      \<lparr>files = [''images/test_shirt.png'' \<mapsto> [0]], stdin = [],
       trace = [Print MsgTitle, Print (MsgRule 50), MadeDirs ''images'', Print MsgInitOk,
                Print MsgWhatToDo, Print MsgOption1, Print MsgOption2, Print MsgOption3,
                Print MsgEnterChoice, Print MsgTestStart, Print (MsgGenerating ''test_shirt''),
                Print (MsgPrompt ''A simple red t-shirt on white background, product photography''),
                Invoke ''amazon.nova-canvas-v1:0''
                  (request_body ''A simple red t-shirt on white background, product photography''
                     1024 1024 8 (Some 123)),
                Opened ''images/test_shirt.png'', Wrote ''images/test_shirt.png'' [0],
                Print (MsgSaved ''images/test_shirt.png''), Print MsgTestOk]\<rparr>)
   \<and> main (stub_env always_one_image) (fresh_world [''3'']) =
     (Inl (Exception ''EOFError'' ''EOF when reading a line''),
      \<lparr>files = [''images/test_shirt.png'' \<mapsto> [0]], stdin = [],
       trace = [Print MsgTitle, Print (MsgRule 50), MadeDirs ''images'', Print MsgInitOk,
                Print MsgWhatToDo, Print MsgOption1, Print MsgOption2, Print MsgOption3,
                Print MsgEnterChoice, Print MsgTestStart, Print (MsgGenerating ''test_shirt''),
                Print (MsgPrompt ''A simple red t-shirt on white background, product photography''),
                Invoke ''amazon.nova-canvas-v1:0''
                  (request_body ''A simple red t-shirt on white background, product photography''
                     1024 1024 8 (Some 123)),
                Opened ''images/test_shirt.png'', Wrote ''images/test_shirt.png'' [0],
                Print (MsgSaved ''images/test_shirt.png''), Print MsgTestOk,
                Print (MsgNlRule 50), Print MsgPressEnter]\<rparr>)"
  by (simp add: eval_defs main_def init_def generate_single_test_image_def strip_def is_space_def
        always_one_image_def)

theorem test_then_batch_needs_confirmation_witness:
  "boto3_client (stub_env always_one_image) ''us-east-1'' = None
   \<and> os_makedirs (stub_env always_one_image)
        (trace (fresh_world ['' 3 '', '''']) @ [Print MsgTitle, Print (MsgRule 50)]) ''images'' = None
   \<and> stdin (fresh_world ['' 3 '', '''']) = '' 3 '' # ['''']
   \<and> strip '' 3 '' = ''3''
   \<and> fst (generate_single_test_image (stub_env always_empty) workshop_generator
        ((fresh_world ['' 3 '', ''''])\<lparr>stdin := [''''],
               trace := trace (fresh_world ['' 3 '', '''']) @
                 [Print MsgTitle, Print (MsgRule 50), MadeDirs ''images'',
                  Print MsgInitOk, Print MsgWhatToDo, Print MsgOption1, Print MsgOption2,
                  Print MsgOption3, Print MsgEnterChoice]\<rparr>)) = Inr False
   \<and> main (stub_env always_empty) (fresh_world ['' 3 '', '''']) =
       (Inr (),
        \<lparr>files = Map.empty, stdin = [''''],
         trace = [Print MsgTitle, Print (MsgRule 50), MadeDirs ''images'', Print MsgInitOk,
                  Print MsgWhatToDo, Print MsgOption1, Print MsgOption2, Print MsgOption3,
                  Print MsgEnterChoice, Print MsgTestStart, Print (MsgGenerating ''test_shirt''),
                  Print (MsgPrompt ''A simple red t-shirt on white background, product photography''),
                  Invoke ''amazon.nova-canvas-v1:0''
                    (request_body ''A simple red t-shirt on white background, product photography''
                       1024 1024 8 (Some 123)),
                  Print (MsgNoImage ''test_shirt''), Print MsgTestFailed]\<rparr>)
   \<and> fst (main (stub_env always_one_image) (fresh_world ['' 3 '', ''''])) = Inr ()
   \<and> filter is_invoke (trace (snd (main (stub_env always_one_image) (fresh_world ['' 3 '', ''''])))) =
       Invoke ''amazon.nova-canvas-v1:0''
         (request_body ''A simple red t-shirt on white background, product photography''
            1024 1024 8 (Some 123))
       # map (job_call workshop_generator) prompts"
proof -
  have h: "boto3_client (stub_env always_one_image) ''us-east-1'' = None"
    "os_makedirs (stub_env always_one_image)
        (trace (fresh_world ['' 3 '', '''']) @ [Print MsgTitle, Print (MsgRule 50)]) ''images'' = None"
    "stdin (fresh_world ['' 3 '', '''']) = '' 3 '' # ['''']"
    "strip '' 3 '' = ''3''"
    by (simp_all add: stub_env_def fresh_world_def strip_def is_space_def)
  from test_then_batch_needs_confirmation[OF h]
  obtain ok tested where
    tst: "generate_single_test_image (stub_env always_one_image) workshop_generator
            ((fresh_world ['' 3 '', ''''])\<lparr>stdin := [''''],
               trace := trace (fresh_world ['' 3 '', '''']) @
                 [Print MsgTitle, Print (MsgRule 50), MadeDirs ''images'',
                  Print MsgInitOk, Print MsgWhatToDo, Print MsgOption1, Print MsgOption2,
                  Print MsgOption3, Print MsgEnterChoice]\<rparr>) = (Inr ok, tested)"
    and run: "ok \<and> [''''] \<noteq> ([]::string list) \<longrightarrow>
          (\<exists>counts final evs.
             generate_workshop_images (stub_env always_one_image) workshop_generator 2
               (tested\<lparr>stdin := tl [''''],
                       trace := trace tested @ [Print (MsgNlRule 50), Print MsgPressEnter]\<rparr>)
               = (Inr counts, final)
             \<and> main (stub_env always_one_image) (fresh_world ['' 3 '', '''']) = (Inr (), final)
             \<and> trace final = trace tested @ [Print (MsgNlRule 50), Print MsgPressEnter] @ evs
             \<and> filter is_invoke evs = map (job_call workshop_generator) prompts)"
    by blast
  from tst have ok: "ok"
    and tested: "filter is_invoke (trace tested) =
       [Invoke ''amazon.nova-canvas-v1:0''
         (request_body ''A simple red t-shirt on white background, product photography''
            1024 1024 8 (Some 123))]"
    by (auto simp add: eval_defs generate_single_test_image_def always_one_image_def)
  have h': "boto3_client (stub_env always_empty) ''us-east-1'' = None"
    "os_makedirs (stub_env always_empty)
        (trace (fresh_world ['' 3 '', '''']) @ [Print MsgTitle, Print (MsgRule 50)]) ''images'' = None"
    by (simp_all add: stub_env_def)
  from test_then_batch_needs_confirmation[OF h' h(3,4)]
  obtain ok' tested' where
    tst': "generate_single_test_image (stub_env always_empty) workshop_generator
            ((fresh_world ['' 3 '', ''''])\<lparr>stdin := [''''],
               trace := trace (fresh_world ['' 3 '', '''']) @
                 [Print MsgTitle, Print (MsgRule 50), MadeDirs ''images'',
                  Print MsgInitOk, Print MsgWhatToDo, Print MsgOption1, Print MsgOption2,
                  Print MsgOption3, Print MsgEnterChoice]\<rparr>) = (Inr ok', tested')"
    and skip: "\<not> ok' \<longrightarrow> main (stub_env always_empty) (fresh_world ['' 3 '', '''']) = (Inr (), tested')"
    by blast
  from tst' have failed: "\<not> ok'"
    and tested': "tested' =
        \<lparr>files = Map.empty, stdin = [''''],
         trace = [Print MsgTitle, Print (MsgRule 50), MadeDirs ''images'', Print MsgInitOk,
                  Print MsgWhatToDo, Print MsgOption1, Print MsgOption2, Print MsgOption3,
                  Print MsgEnterChoice, Print MsgTestStart, Print (MsgGenerating ''test_shirt''),
                  Print (MsgPrompt ''A simple red t-shirt on white background, product photography''),
                  Invoke ''amazon.nova-canvas-v1:0''
                    (request_body ''A simple red t-shirt on white background, product photography''
                       1024 1024 8 (Some 123)),
                  Print (MsgNoImage ''test_shirt''), Print MsgTestFailed]\<rparr>"
    by (auto simp add: eval_defs generate_single_test_image_def always_empty_def)
  from tst' failed have test_failed:
    "fst (generate_single_test_image (stub_env always_empty) workshop_generator
        ((fresh_world ['' 3 '', ''''])\<lparr>stdin := [''''],
               trace := trace (fresh_world ['' 3 '', '''']) @
                 [Print MsgTitle, Print (MsgRule 50), MadeDirs ''images'',
                  Print MsgInitOk, Print MsgWhatToDo, Print MsgOption1, Print MsgOption2,
                  Print MsgOption3, Print MsgEnterChoice]\<rparr>)) = Inr False"
    by simp
  from skip failed tested' have skipped:
    "main (stub_env always_empty) (fresh_world ['' 3 '', '''']) =
       (Inr (),
        \<lparr>files = Map.empty, stdin = [''''],
         trace = [Print MsgTitle, Print (MsgRule 50), MadeDirs ''images'', Print MsgInitOk,
                  Print MsgWhatToDo, Print MsgOption1, Print MsgOption2, Print MsgOption3,
                  Print MsgEnterChoice, Print MsgTestStart, Print (MsgGenerating ''test_shirt''),
                  Print (MsgPrompt ''A simple red t-shirt on white background, product photography''),
                  Invoke ''amazon.nova-canvas-v1:0''
                    (request_body ''A simple red t-shirt on white background, product photography''
                       1024 1024 8 (Some 123)),
                  Print (MsgNoImage ''test_shirt''), Print MsgTestFailed]\<rparr>)"
    by simp
  from run ok tested h test_failed skipped show ?thesis by auto
qed

end
